theory Spec2Isabelle
  imports Complex_Main
begin

section \<open>JavaScript values\<close>

text \<open>
  The values a body can hold: a number or \<open>undefined\<close>. A finite number is written
  \<open>Num r\<close>, with \<open>NegZero\<close> for the negative zero, so that \<open>Num 0\<close> is the positive
  one; the type is wider than the doubles, which are the finite numbers a program can
  hold. \<open>Undefined\<close> is what reading a missing array element or property yields.
\<close>

datatype jsval = Num real | NegZero | PosInf | NegInf | NaN | Undefined

text \<open>\<open>typeof v === "number"\<close>\<close>

fun is_number :: "jsval \<Rightarrow> bool" where
  "is_number Undefined = False"
| "is_number v = True"

text \<open>
  The arithmetic of the platform is IEEE-754 on doubles, with rounding, overflow to an
  infinity, NaN and signed zeros, after the conversion of an \<open>undefined\<close> operand to
  NaN. It is not defined here. Every function that computes takes the arithmetic as a
  parameter, the record of the operators and \<open>Math\<close> functions the library uses, so
  that what is proved holds for whatever these operations do.
\<close>

record fpu =
  fp_add :: "jsval \<Rightarrow> jsval \<Rightarrow> jsval"
  fp_sub :: "jsval \<Rightarrow> jsval \<Rightarrow> jsval"
  fp_mul :: "jsval \<Rightarrow> jsval \<Rightarrow> jsval"
  fp_div :: "jsval \<Rightarrow> jsval \<Rightarrow> jsval"
  fp_gt :: "jsval \<Rightarrow> jsval \<Rightarrow> bool"
  fp_lt :: "jsval \<Rightarrow> jsval \<Rightarrow> bool"
  Math_sqrt :: "jsval \<Rightarrow> jsval"
  Math_pow :: "jsval \<Rightarrow> jsval \<Rightarrow> jsval"

text \<open>
  The same number up to the sign of a zero: the two values are equal, or each is one
  of the two zeros. Two NaN results count as the same.
\<close>

definition same_number :: "jsval \<Rightarrow> jsval \<Rightarrow> bool" where
  "same_number x y = (x = y \<or> (x \<in> {Num 0, NegZero} \<and> y \<in> {Num 0, NegZero}))"

text \<open>
  Two facts of IEEE-754 arithmetic about the start value \<open>0\<close> of an accumulator, for
  all operands (numbers or undefined): \<open>(0 + p) - q\<close> and \<open>(0 - q) + p\<close> are both the
  same number as \<open>p - q\<close>. They hold because \<open>0 + p\<close> is \<open>p\<close> unless \<open>p\<close> is the
  negative zero, \<open>0 - q\<close> is the negation of \<open>q\<close> unless \<open>q\<close> is a zero, \<open>p - q\<close> is
  \<open>p + (-q)\<close>, addition commutes, and a zero operand of either sign gives the same
  sum up to the sign of a zero result.
\<close>

definition zero_start_laws :: "fpu \<Rightarrow> bool" where
  "zero_start_laws fp =
     ((\<forall>p q. same_number (fp_sub fp (fp_add fp (Num 0) p) q) (fp_sub fp p q))
      \<and> (\<forall>p q. same_number (fp_add fp (fp_sub fp (Num 0) q) p) (fp_sub fp p q)))"

text \<open>
  An arithmetic that computes exactly on finite numbers and gives NaN on anything else.
  It is not the arithmetic of the platform: it agrees with it where the operands and
  the result are integers below \<open>2^53\<close> in magnitude and no zero is negative, and
  serves only as an instance, to evaluate the functions on such inputs.
\<close>

fun exact2 :: "(real \<Rightarrow> real \<Rightarrow> real) \<Rightarrow> jsval \<Rightarrow> jsval \<Rightarrow> jsval" where
  "exact2 f (Num a) (Num b) = Num (f a b)"
| "exact2 f x y = NaN"

fun exact_less :: "jsval \<Rightarrow> jsval \<Rightarrow> bool" where
  "exact_less (Num a) (Num b) = (a < b)"
| "exact_less x y = False"

fun exact_sqrt :: "jsval \<Rightarrow> jsval" where
  "exact_sqrt (Num a) = (if a < 0 then NaN else Num (sqrt a))"
| "exact_sqrt x = NaN"

definition exact_fpu :: fpu where
  "exact_fpu =
     \<lparr>fp_add = exact2 (+), fp_sub = exact2 (-), fp_mul = exact2 (*),
      fp_div = (\<lambda>x y. if y = Num 0 then NaN else exact2 (/) x y),
      fp_gt = (\<lambda>x y. exact_less y x), fp_lt = exact_less,
      Math_sqrt = exact_sqrt, Math_pow = (\<lambda>x y. if y = Num 2 then exact2 (*) x x else NaN)\<rparr>"

section \<open>JavaScript arrays\<close>

text \<open>
  An array is its indexed slots, where \<open>None\<close> is a hole (an index below the length
  that holds no element), and the own property \<open>-1\<close>, the only key besides the indices
  that the library ever reads or writes (\<open>findIndex\<close> returns \<open>-1\<close> for a name it does
  not find).
\<close>

record jsarray =
  elems :: "jsval option list"
  minus_one :: "jsval option"

definition dense :: "jsval list \<Rightarrow> jsarray" where
  "dense xs = \<lparr>elems = map Some xs, minus_one = None\<rparr>"

definition arr_length :: "jsarray \<Rightarrow> nat" where
  "arr_length a = length (elems a)"

fun slot_value :: "jsval option \<Rightarrow> jsval" where
  "slot_value None = Undefined"
| "slot_value (Some v) = v"

text \<open>\<open>a[i]\<close>: a hole, an index past the end and a missing property read as undefined.\<close>

definition arr_get :: "jsarray \<Rightarrow> int \<Rightarrow> jsval" where
  "arr_get a i =
     (if i < 0 then slot_value (minus_one a)
      else if nat i < length (elems a) then slot_value (elems a ! nat i)
      else Undefined)"

text \<open>
  \<open>a[i] = v\<close>: an index past the end extends the array, leaving holes between the old
  end and the new element; the key \<open>-1\<close> becomes an ordinary property and the length
  stays.
\<close>

definition arr_set :: "jsarray \<Rightarrow> int \<Rightarrow> jsval \<Rightarrow> jsarray" where
  "arr_set a i v =
     (if i < 0 then a\<lparr>minus_one := Some v\<rparr>
      else if nat i < length (elems a) then a\<lparr>elems := (elems a)[nat i := Some v]\<rparr>
      else a\<lparr>elems := elems a @ replicate (nat i - length (elems a)) None @ [Some v]\<rparr>)"

text \<open>
  \<open>a.map((v, i) => f(v, i))\<close>: a fresh array of the same length; holes stay holes (the
  callback is not called on them) and non-index properties are not carried over.
\<close>

definition arr_map :: "(jsval \<Rightarrow> nat \<Rightarrow> jsval) \<Rightarrow> jsarray \<Rightarrow> jsarray" where
  "arr_map f a =
     \<lparr>elems = map (\<lambda>(i, e). map_option (\<lambda>v. f v i) e) (enumerate 0 (elems a)),
      minus_one = None\<rparr>"

text \<open>\<open>[...a]\<close>: the iterator yields undefined for a hole.\<close>

definition spread :: "jsarray \<Rightarrow> jsval list" where
  "spread a = map slot_value (elems a)"

text \<open>The elements \<open>reduce\<close> visits: holes are skipped.\<close>

definition present :: "jsarray \<Rightarrow> jsval list" where
  "present a = List.map_filter id (elems a)"

datatype error = TypeError

text \<open>\<open>a.reduce(f, init)\<close>, and \<open>a.reduce(f)\<close>, which throws when there is no element.\<close>

definition arr_reduce :: "(jsval \<Rightarrow> jsval \<Rightarrow> jsval) \<Rightarrow> jsval \<Rightarrow> jsarray \<Rightarrow> jsval" where
  "arr_reduce f init a = foldl f init (present a)"

definition arr_reduce1 :: "(jsval \<Rightarrow> jsval \<Rightarrow> jsval) \<Rightarrow> jsarray \<Rightarrow> error + jsval" where
  "arr_reduce1 f a =
     (case present a of [] \<Rightarrow> Inl TypeError | x # xs \<Rightarrow> Inr (foldl f x xs))"

text \<open>\<open>xs[i]\<close> on a plain list of values, as the doubled arrays of \<open>cross\<close> are read.\<close>

definition list_get :: "jsval list \<Rightarrow> int \<Rightarrow> jsval" where
  "list_get xs i = (if 0 \<le> i \<and> nat i < length xs then xs ! nat i else Undefined)"

text \<open>\<open>xs.findIndex(P)\<close>: the first index whose element satisfies \<open>P\<close>, or \<open>-1\<close>.\<close>

fun findIndex_from :: "('a \<Rightarrow> bool) \<Rightarrow> int \<Rightarrow> 'a list \<Rightarrow> int" where
  "findIndex_from P i [] = - 1"
| "findIndex_from P i (x # xs) = (if P x then i else findIndex_from P (i + 1) xs)"

definition findIndex :: "('a \<Rightarrow> bool) \<Rightarrow> 'a list \<Rightarrow> int" where
  "findIndex P xs = findIndex_from P 0 xs"

section \<open>VecBase\<close>

text \<open>
  An instance of \<open>VecBase\<close> or of one of its subclasses: the prototype it was created
  with and its two private fields. A component name is a string; a JavaScript string
  is modelled as a list of characters.
\<close>

datatype vec_class = VecBase_class | Vec2_class | Vec3_class | Vec4_class

record vec =
  proto :: vec_class
  swizzles :: "string list"
  body :: jsarray

text \<open>
  The fields of an object are its state; which object it is, is a matter of the store
  further down. The functions of this section compute on the state of one object:
  \<open>set_dimension\<close> returns the state the receiver has after the call.
\<close>

text \<open>
  The constructor stores both arguments as they are: it neither checks the length of
  the body against the names nor repeats a single value. The body passed is taken to
  be a dense array, as an array literal or the rest arguments of a call are.
\<close>

definition VecBase_constructor :: "string list \<Rightarrow> jsval list \<Rightarrow> vec" where
  "VecBase_constructor sw b = \<lparr>proto = VecBase_class, swizzles = sw, body = dense b\<rparr>"

definition find_swizzle_index :: "vec \<Rightarrow> string \<Rightarrow> int" where
  "find_swizzle_index v swizzle = findIndex (\<lambda>w. swizzle = w) (swizzles v)"

definition get_swizzles :: "vec \<Rightarrow> string list" where
  "get_swizzles v = swizzles v"

definition get_dimension :: "vec \<Rightarrow> string \<Rightarrow> jsval" where
  "get_dimension v dimension = arr_get (body v) (find_swizzle_index v dimension)"

definition set_dimension :: "vec \<Rightarrow> string \<Rightarrow> jsval \<Rightarrow> vec" where
  "set_dimension v dimension val =
     v\<lparr>body := arr_set (body v) (find_swizzle_index v dimension) val\<rparr>"

section \<open>Vec2, Vec3, Vec4\<close>

text \<open>
  The subclasses fix the names; their constructors take the body as rest arguments, so
  it is a fresh dense array of whatever was passed (the types allow one number or the
  full count).
\<close>

definition Vec2_swizzle_particals :: "string list" where
  "Vec2_swizzle_particals = [''x'', ''y'']"

definition Vec3_swizzle_particals :: "string list" where
  "Vec3_swizzle_particals = [''x'', ''y'', ''z'']"

definition Vec4_swizzle_particals :: "string list" where
  "Vec4_swizzle_particals = [''x'', ''y'', ''z'', ''w'']"

definition Vec2_constructor :: "jsval list \<Rightarrow> vec" where
  "Vec2_constructor b = \<lparr>proto = Vec2_class, swizzles = Vec2_swizzle_particals, body = dense b\<rparr>"

definition Vec3_constructor :: "jsval list \<Rightarrow> vec" where
  "Vec3_constructor b = \<lparr>proto = Vec3_class, swizzles = Vec3_swizzle_particals, body = dense b\<rparr>"

definition Vec4_constructor :: "jsval list \<Rightarrow> vec" where
  "Vec4_constructor b = \<lparr>proto = Vec4_class, swizzles = Vec4_swizzle_particals, body = dense b\<rparr>"

section \<open>The swizzle proxy\<close>

text \<open>
  A property key is a string or a symbol. \<open>Reflect.has(target, p)\<close> holds for the two
  own fields of an instance and for what it inherits from \<open>VecBase.prototype\<close> and
  \<open>Object.prototype\<close>; none of them has a symbol key.
\<close>

datatype prop_key = Str string | Sym string

definition own_properties :: "string list" where
  "own_properties = [''swizzles'', ''body'']"

definition VecBase_prototype :: "string list" where
  "VecBase_prototype =
     [''constructor'', ''clone'', ''find_swizzle_index'', ''get_swizzles'',
      ''get_dimension'', ''set_dimension'', ''couple_element_wise'', ''add'', ''subtract'',
      ''divide'', ''multiply'', ''scalar'', ''lerp'', ''angle'', ''norm'', ''magnitude'',
      ''projection'', ''normalize'', ''dot'', ''cross'']"

definition Object_prototype :: "string list" where
  "Object_prototype =
     [''constructor'', ''__defineGetter__'', ''__defineSetter__'', ''hasOwnProperty'',
      ''__lookupGetter__'', ''__lookupSetter__'', ''isPrototypeOf'',
      ''propertyIsEnumerable'', ''toString'', ''valueOf'', ''__proto__'',
      ''toLocaleString'']"

fun Reflect_has :: "vec \<Rightarrow> prop_key \<Rightarrow> bool" where
  "Reflect_has target (Str s) =
     (s \<in> set (own_properties @ VecBase_prototype @ Object_prototype))"
| "Reflect_has target (Sym s) = False"

text \<open>\<open>p.split("")\<close>: the one-character strings of \<open>p\<close>.\<close>

definition split_chars :: "string \<Rightarrow> string list" where
  "split_chars p = map (\<lambda>c. [c]) p"

definition swizzleMatch :: "string list \<Rightarrow> string list \<Rightarrow> bool" where
  "swizzleMatch sw val =
     (if length sw \<ge> length val then list_all (\<lambda>c. c \<in> set sw) val else False)"

text \<open>
  What a read through the proxy returns: the member of the target itself for a key
  the target has, a value (a number, or \<open>undefined\<close>, which is also what a bare
  \<open>return\<close> gives), or a new proxied vector, given by its target and the names its
  handlers close over.
\<close>

datatype get_result = Member prop_key | Value jsval | Proxied vec "string list"

definition get_handler :: "string list \<Rightarrow> vec \<Rightarrow> prop_key \<Rightarrow> get_result" where
  "get_handler sw target p =
     (if Reflect_has target p then Member p
      else case p of
        Sym s \<Rightarrow> Value Undefined
      | Str s \<Rightarrow>
          (let chars = split_chars s
           in if \<not> swizzleMatch sw chars then Value Undefined
              else
                (let result = map (\<lambda>c. get_dimension target c) chars
                 in if length result = 1 then Value (result ! 0)
                    else if length result = 2
                      then Proxied (Vec2_constructor result) Vec2_swizzle_particals
                    else if length result = 3
                      then Proxied (Vec3_constructor result) Vec3_swizzle_particals
                    else if length result = 4
                      then Proxied (Vec4_constructor result) Vec4_swizzle_particals
                    else Proxied (VecBase_constructor sw result) sw)))"

text \<open>
  What can be assigned through the proxy: a primitive, an instance of \<open>VecBase\<close> (of
  any subclass, proxied or not), or a plain object with the given fields, which is not
  an instance whatever its fields are.
\<close>

datatype js_any = Prim jsval | Instance vec | PlainObject "(string \<times> jsval) list"

text \<open>
  The loop of the \<open>set\<close> handler, over the remaining characters. It returns the flag
  and the target as the loop leaves it: an early \<open>return false\<close> keeps the writes made
  so far. The assigned vector is read by name, and is passed as the value it has when
  the assignment starts; when it is the target itself, every round writes back the
  value it has just read, so that value does not change during the loop.
\<close>

fun set_loop :: "vec \<Rightarrow> vec \<Rightarrow> string list \<Rightarrow> bool \<times> vec" where
  "set_loop target val [] = (True, target)"
| "set_loop target val (dimension # rest) =
     (let dimension_value = get_dimension val dimension
      in if \<not> is_number dimension_value then (False, target)
         else set_loop (set_dimension target dimension dimension_value) val rest)"

text \<open>
  The result of the \<open>set\<close> handler: for a key the target has, the assignment is
  handed to \<open>Reflect.set\<close>, which is outside this model; otherwise the returned flag
  and the target after the call.
\<close>

datatype set_result = Delegated prop_key js_any | Returned bool vec

definition set_handler :: "string list \<Rightarrow> vec \<Rightarrow> prop_key \<Rightarrow> js_any \<Rightarrow> set_result" where
  "set_handler sw target p val =
     (if Reflect_has target p then Delegated p val
      else case p of
        Sym s \<Rightarrow> Returned False target
      | Str s \<Rightarrow>
          (case val of
             Instance src \<Rightarrow>
               (let chars = split_chars s
                in if \<not> swizzleMatch sw chars then Returned False target
                   else (case set_loop target src chars of
                           (ok, target') \<Rightarrow> Returned ok target'))
           | _ \<Rightarrow> Returned False target))"

text \<open>\<open>createVecProxy\<close> and the static \<open>new\<close> of the three subclasses.\<close>

datatype proxy = Proxy vec "string list"

definition createVecProxy :: "vec \<Rightarrow> string list \<Rightarrow> proxy" where
  "createVecProxy v sw = Proxy v sw"

definition Vec2_new :: "jsval list \<Rightarrow> proxy" where
  "Vec2_new b = createVecProxy (Vec2_constructor b) Vec2_swizzle_particals"

definition Vec3_new :: "jsval list \<Rightarrow> proxy" where
  "Vec3_new b = createVecProxy (Vec3_constructor b) Vec3_swizzle_particals"

definition Vec4_new :: "jsval list \<Rightarrow> proxy" where
  "Vec4_new b = createVecProxy (Vec4_constructor b) Vec4_swizzle_particals"

text \<open>A property read and an assignment on a proxied vector.\<close>

fun proxy_read :: "proxy \<Rightarrow> prop_key \<Rightarrow> get_result" where
  "proxy_read (Proxy target sw) p = get_handler sw target p"

fun proxy_write :: "proxy \<Rightarrow> prop_key \<Rightarrow> js_any \<Rightarrow> set_result" where
  "proxy_write (Proxy target sw) p val = set_handler sw target p val"

section \<open>Objects and the operations that create them\<close>

text \<open>
  Objects have identity: the store is the list of the objects created so far, and a
  reference is the position of an object in it. Creating an object appends it, so the
  new reference is the length of the store before, and no earlier object changes. A
  reference handed to a function denotes an object of the store. An object holds its
  two arrays by value: the library itself never writes to an array of names, and
  writes to a body only through the object that holds it.
\<close>

type_synonym ref = nat

type_synonym store = "vec list"

definition alloc :: "store \<Rightarrow> vec \<Rightarrow> ref \<times> store" where
  "alloc s v = (length s, s @ [v])"

text \<open>
  \<open>clone\<close>: \<open>Object.create\<close> of the receiver's prototype makes a new object, which
  gets structured clones of both fields; a structured clone of an array keeps its
  holes and its own properties.
\<close>

definition clone :: "store \<Rightarrow> ref \<Rightarrow> ref \<times> store" where
  "clone s this =
     (let prototype = proto (s ! this);
          instance = \<lparr>proto = prototype, swizzles = swizzles (s ! this),
                      body = body (s ! this)\<rparr>
      in alloc s instance)"

definition couple_element_wise ::
    "store \<Rightarrow> ref \<Rightarrow> ref \<Rightarrow> (jsval \<Rightarrow> jsval \<Rightarrow> jsval) \<Rightarrow> ref \<times> store" where
  "couple_element_wise s this other callback =
     (case clone s this of
        (c, s1) \<Rightarrow>
          (c, s1[c := (s1 ! c)\<lparr>body :=
                 arr_map (\<lambda>v i. callback v (arr_get (body (s1 ! other)) (int i)))
                   (body (s1 ! c))\<rparr>]))"

definition add :: "fpu \<Rightarrow> store \<Rightarrow> ref \<Rightarrow> ref \<Rightarrow> ref \<times> store" where
  "add fp s this other = couple_element_wise s this other (\<lambda>a b. fp_add fp a b)"

definition subtract :: "fpu \<Rightarrow> store \<Rightarrow> ref \<Rightarrow> ref \<Rightarrow> ref \<times> store" where
  "subtract fp s this other = couple_element_wise s this other (\<lambda>a b. fp_sub fp a b)"

definition divide_vec :: "fpu \<Rightarrow> store \<Rightarrow> ref \<Rightarrow> ref \<Rightarrow> ref \<times> store" where
  "divide_vec fp s this other = couple_element_wise s this other (\<lambda>a b. fp_div fp a b)"

definition multiply :: "fpu \<Rightarrow> store \<Rightarrow> ref \<Rightarrow> ref \<Rightarrow> ref \<times> store" where
  "multiply fp s this other = couple_element_wise s this other (\<lambda>a b. fp_mul fp a b)"

definition scalar :: "fpu \<Rightarrow> store \<Rightarrow> ref \<Rightarrow> jsval \<Rightarrow> ref \<times> store" where
  "scalar fp s this number =
     (case clone s this of
        (c, s1) \<Rightarrow>
          multiply fp
            (s1[c := (s1 ! c)\<lparr>body := arr_map (\<lambda>v i. number) (body (s1 ! c))\<rparr>])
            this c)"

definition lerp :: "fpu \<Rightarrow> store \<Rightarrow> ref \<Rightarrow> ref \<Rightarrow> jsval \<Rightarrow> ref \<times> store" where
  "lerp fp s this other t =
     couple_element_wise s this other
       (\<lambda>a b. if fp_gt fp t (Num 1) then b
               else if fp_lt fp t (Num 0) then a
               else fp_add fp a (fp_div fp (fp_add fp a b) (Num 2)))"

definition norm_vec :: "fpu \<Rightarrow> store \<Rightarrow> ref \<Rightarrow> jsval" where
  "norm_vec fp s this =
     Math_sqrt fp
       (arr_reduce (\<lambda>acc v. fp_add fp acc (fp_mul fp v v)) (Num 0) (body (s ! this)))"

definition magnitude :: "fpu \<Rightarrow> store \<Rightarrow> ref \<Rightarrow> jsval" where
  "magnitude fp s this = norm_vec fp s this"

text \<open>\<open>dot\<close> creates the product vector and reduces its body without a start value.\<close>

definition dot :: "fpu \<Rightarrow> store \<Rightarrow> ref \<Rightarrow> ref \<Rightarrow> (error + jsval) \<times> store" where
  "dot fp s this other =
     (case multiply fp s this other of
        (m, s1) \<Rightarrow> (arr_reduce1 (\<lambda>acc v. fp_add fp acc v) (body (s1 ! m)), s1))"

definition projection :: "fpu \<Rightarrow> store \<Rightarrow> ref \<Rightarrow> ref \<Rightarrow> (error + ref) \<times> store" where
  "projection fp s this other =
     (case dot fp s this other of
        (Inl e, s1) \<Rightarrow> (Inl e, s1)
      | (Inr dot_product, s1) \<Rightarrow>
          (let norm_power = Math_pow fp (norm_vec fp s1 other) (Num 2);
               factor = fp_div fp dot_product norm_power
           in case scalar fp s1 other factor of (r, s2) \<Rightarrow> (Inr r, s2)))"

definition normalize_vec :: "fpu \<Rightarrow> store \<Rightarrow> ref \<Rightarrow> ref \<times> store" where
  "normalize_vec fp s this = scalar fp s this (fp_div fp (Num 1) (norm_vec fp s this))"

text \<open>
  \<open>cross\<close>. The loop runs \<open>i = 0, 1, 2\<close> over the two doubled bodies and updates two
  entries of \<open>result\<close> in each round, starting from \<open>[0, 0, 0]\<close>; \<open>None\<close> stands for
  the \<open>undefined\<close> it returns when the receiver does not have three components.
\<close>

definition cross_step ::
    "fpu \<Rightarrow> jsval list \<Rightarrow> jsval list \<Rightarrow> jsval list \<Rightarrow> int \<Rightarrow> jsval list" where
  "cross_step fp values0 values1 result i =
     (let i2 = 1 - i; i3 = 4 - i;
          c1 = i; c2 = i3;
          j = (if i2 < 0 then i3 else i2);
          result1 = result[nat i :=
            fp_add fp (list_get result i)
              (fp_mul fp (list_get values0 (c1 + 1)) (list_get values1 (c1 + 2)))]
      in result1[nat j :=
            fp_sub fp (list_get result1 j)
              (fp_mul fp (list_get values0 (c2 - 1)) (list_get values1 (c2 - 2)))])"

definition cross :: "fpu \<Rightarrow> store \<Rightarrow> ref \<Rightarrow> ref \<Rightarrow> ref option \<times> store" where
  "cross fp s this other =
     (let dimension_count = arr_length (body (s ! this))
      in if dimension_count \<noteq> 3 then (None, s)
         else
           (let values0 = spread (body (s ! this)) @ spread (body (s ! this));
                values1 = spread (body (s ! other)) @ spread (body (s ! other));
                result = foldl (cross_step fp values0 values1) [Num 0, Num 0, Num 0] [0, 1, 2]
            in case clone s this of
                 (c, s1) \<Rightarrow> (Some c, s1[c := (s1 ! c)\<lparr>body := dense result\<rparr>])))"

text \<open>
  On the store, \<open>set_dimension\<close> changes the receiver in place, a read through a proxy
  that yields a vector creates that vector, and an assignment through a proxy changes
  the target in place. The assigned vector is read in the store as it is when the
  assignment starts; an assignment to a key the target has is outside the model
  (\<open>None\<close>).
\<close>

definition set_dimension_in :: "store \<Rightarrow> ref \<Rightarrow> string \<Rightarrow> jsval \<Rightarrow> store" where
  "set_dimension_in s this dimension val = s[this := set_dimension (s ! this) dimension val]"

datatype read_result = Read_member prop_key | Read_value jsval | Read_proxy ref "string list"

definition read_in :: "store \<Rightarrow> ref \<Rightarrow> string list \<Rightarrow> prop_key \<Rightarrow> read_result \<times> store" where
  "read_in s target sw p =
     (case get_handler sw (s ! target) p of
        Member k \<Rightarrow> (Read_member k, s)
      | Value x \<Rightarrow> (Read_value x, s)
      | Proxied w names \<Rightarrow> (case alloc s w of (r, s1) \<Rightarrow> (Read_proxy r names, s1)))"

definition write_in ::
    "store \<Rightarrow> ref \<Rightarrow> string list \<Rightarrow> prop_key \<Rightarrow> ref \<Rightarrow> (bool \<times> store) option" where
  "write_in s target sw p src =
     (case set_handler sw (s ! target) p (Instance (s ! src)) of
        Returned ok target' \<Rightarrow> Some (ok, s[target := target'])
      | Delegated k v \<Rightarrow> None)"

section \<open>What the public interface produces\<close>

text \<open>
  The stores a client can reach, with the proxies it holds (a proxy is its target and
  the names its handlers close over). Objects come from the constructors of \<open>Vec2\<close>,
  \<open>Vec3\<close> and \<open>Vec4\<close> and their static \<open>new\<close> called with the full number of
  values, from the generic constructor called with pairwise distinct names and as many
  values, from \<open>clone\<close> and the arithmetic operations, under any arithmetic, and from
  reading a non-empty key through a proxy; \<open>set_dimension\<close> and an assignment
  through a proxy change an object in place. \<open>createVecProxy\<close> is not exported.
\<close>

inductive api :: "store \<Rightarrow> (ref \<times> string list) set \<Rightarrow> bool" where
  by_start: "api [] {}"
| by_Vec2: "api s P \<Longrightarrow> alloc s (Vec2_constructor [a, b]) = (r, s') \<Longrightarrow> api s' P"
| by_Vec3: "api s P \<Longrightarrow> alloc s (Vec3_constructor [a, b, c]) = (r, s') \<Longrightarrow> api s' P"
| by_Vec4: "api s P \<Longrightarrow> alloc s (Vec4_constructor [a, b, c, d]) = (r, s') \<Longrightarrow> api s' P"
| by_VecBase: "api s P \<Longrightarrow> distinct sw \<Longrightarrow> length cs = length sw \<Longrightarrow>
      alloc s (VecBase_constructor sw cs) = (r, s') \<Longrightarrow> api s' P"
| by_Vec2_new: "api s P \<Longrightarrow> alloc s (Vec2_constructor [a, b]) = (r, s') \<Longrightarrow>
      api s' (insert (r, Vec2_swizzle_particals) P)"
| by_Vec3_new: "api s P \<Longrightarrow> alloc s (Vec3_constructor [a, b, c]) = (r, s') \<Longrightarrow>
      api s' (insert (r, Vec3_swizzle_particals) P)"
| by_Vec4_new: "api s P \<Longrightarrow> alloc s (Vec4_constructor [a, b, c, d]) = (r, s') \<Longrightarrow>
      api s' (insert (r, Vec4_swizzle_particals) P)"
| by_clone: "api s P \<Longrightarrow> this < length s \<Longrightarrow> clone s this = (r, s') \<Longrightarrow> api s' P"
| by_set_dimension: "api s P \<Longrightarrow> this < length s \<Longrightarrow>
      api (set_dimension_in s this name x) P"
| by_add: "api s P \<Longrightarrow> this < length s \<Longrightarrow> other < length s \<Longrightarrow>
      add fp s this other = (r, s') \<Longrightarrow> api s' P"
| by_subtract: "api s P \<Longrightarrow> this < length s \<Longrightarrow> other < length s \<Longrightarrow>
      subtract fp s this other = (r, s') \<Longrightarrow> api s' P"
| by_multiply: "api s P \<Longrightarrow> this < length s \<Longrightarrow> other < length s \<Longrightarrow>
      multiply fp s this other = (r, s') \<Longrightarrow> api s' P"
| by_divide: "api s P \<Longrightarrow> this < length s \<Longrightarrow> other < length s \<Longrightarrow>
      divide_vec fp s this other = (r, s') \<Longrightarrow> api s' P"
| by_scalar: "api s P \<Longrightarrow> this < length s \<Longrightarrow> scalar fp s this k = (r, s') \<Longrightarrow> api s' P"
| by_lerp: "api s P \<Longrightarrow> this < length s \<Longrightarrow> other < length s \<Longrightarrow>
      lerp fp s this other t = (r, s') \<Longrightarrow> api s' P"
| by_normalize: "api s P \<Longrightarrow> this < length s \<Longrightarrow>
      normalize_vec fp s this = (r, s') \<Longrightarrow> api s' P"
| by_dot: "api s P \<Longrightarrow> this < length s \<Longrightarrow> other < length s \<Longrightarrow>
      dot fp s this other = (x, s') \<Longrightarrow> api s' P"
| by_projection: "api s P \<Longrightarrow> this < length s \<Longrightarrow> other < length s \<Longrightarrow>
      projection fp s this other = (x, s') \<Longrightarrow> api s' P"
| by_cross: "api s P \<Longrightarrow> this < length s \<Longrightarrow> other < length s \<Longrightarrow>
      cross fp s this other = (x, s') \<Longrightarrow> api s' P"
| by_read: "api s P \<Longrightarrow> (t, sw) \<in> P \<Longrightarrow> p \<noteq> Str [] \<Longrightarrow>
      read_in s t sw p = (Read_proxy r names, s') \<Longrightarrow> api s' (insert (r, names) P)"
| by_write: "api s P \<Longrightarrow> (t, sw) \<in> P \<Longrightarrow> src < length s \<Longrightarrow>
      write_in s t sw p src = Some (ok, s') \<Longrightarrow> api s' P"

text \<open>The invariant of the data model: as many names as components, no name twice.\<close>

definition data_model_invariant :: "vec \<Rightarrow> bool" where
  "data_model_invariant v =
     (length (swizzles v) = arr_length (body v) \<and> distinct (swizzles v))"

text \<open>
  The invariant of a store with its proxies: every object satisfies the invariant of
  the data model, and every proxy wraps an object of the store under that object's
  names, of which there are at most four.
\<close>

definition store_invariant :: "store \<Rightarrow> (ref \<times> string list) set \<Rightarrow> bool" where
  "store_invariant s P =
     ((\<forall>v\<in>set s. data_model_invariant v)
      \<and> (\<forall>(t, sw)\<in>P. t < length s \<and> swizzles (s ! t) = sw \<and> length sw \<le> 4))"

text \<open>
  The arithmetic agrees with exact arithmetic on integers up to 1000 in magnitude, as
  IEEE-754 does: sums and differences are exact, with a positive zero when they are
  zero, and products of non-zero integers are exact.
\<close>

definition integers_exact :: "fpu \<Rightarrow> bool" where
  "integers_exact fp =
     (\<forall>m n :: int. \<bar>m\<bar> \<le> 1000 \<and> \<bar>n\<bar> \<le> 1000 \<longrightarrow>
        fp_add fp (Num (of_int m)) (Num (of_int n)) = Num (of_int (m + n))
        \<and> fp_sub fp (Num (of_int m)) (Num (of_int n)) = Num (of_int (m - n))
        \<and> (m \<noteq> 0 \<and> n \<noteq> 0 \<longrightarrow>
             fp_mul fp (Num (of_int m)) (Num (of_int n)) = Num (of_int (m * n))))"

section \<open>Names, indices and array slots\<close>

lemma findIndex_from_notin: "\<forall>x\<in>set xs. \<not> P x \<Longrightarrow> findIndex_from P i xs = - 1"
  by (induction xs arbitrary: i) auto

lemma findIndex_from_in:
  "\<exists>x\<in>set xs. P x \<Longrightarrow>
   i \<le> findIndex_from P i xs \<and> nat (findIndex_from P i xs - i) < length xs
   \<and> P (xs ! nat (findIndex_from P i xs - i))"
proof (induction xs arbitrary: i)
  case Nil
  then show ?case by simp
next
  case (Cons x xs)
  show ?case
  proof (cases "P x")
    case True
    then show ?thesis by simp
  next
    case False
    with Cons.prems have "\<exists>x\<in>set xs. P x" by simp
    from Cons.IH [OF this, of "i + 1"]
    have ih: "i + 1 \<le> findIndex_from P (i + 1) xs"
      "nat (findIndex_from P (i + 1) xs - (i + 1)) < length xs"
      "P (xs ! nat (findIndex_from P (i + 1) xs - (i + 1)))"
      by simp_all
    define r where "r = findIndex_from P (i + 1) xs"
    define m where "m = nat (r - (i + 1))"
    from ih have r: "i + 1 \<le> r" "m < length xs" "P (xs ! m)"
      by (simp_all add: r_def m_def)
    from r(1) have n: "nat (r - i) = Suc m"
      unfolding m_def by arith
    have "findIndex_from P i (x # xs) = r"
      using False by (simp add: r_def)
    moreover have "i \<le> r" using r(1) by arith
    moreover have "nat (r - i) < length (x # xs)" using r(2) n by simp
    moreover have "P ((x # xs) ! nat (r - i))" using r(3) n by simp
    ultimately show ?thesis by simp
  qed
qed

lemma find_swizzle_index_unknown:
  "name \<notin> set (swizzles v) \<Longrightarrow> find_swizzle_index v name = - 1"
  unfolding find_swizzle_index_def findIndex_def
  by (rule findIndex_from_notin) auto

lemma find_swizzle_index_known:
  assumes "name \<in> set (swizzles v)"
  shows "0 \<le> find_swizzle_index v name \<and> nat (find_swizzle_index v name) < length (swizzles v)
         \<and> swizzles v ! nat (find_swizzle_index v name) = name"
proof -
  have "\<exists>x\<in>set (swizzles v). name = x" using assms by simp
  from findIndex_from_in [of "swizzles v" "\<lambda>w. name = w" 0, OF this]
  show ?thesis unfolding find_swizzle_index_def findIndex_def by simp
qed

lemma find_swizzle_index_inj:
  assumes "c \<in> set (swizzles v)" and "find_swizzle_index v n = find_swizzle_index v c"
  shows "n = c"
proof (cases "n \<in> set (swizzles v)")
  case True
  have "n = swizzles v ! nat (find_swizzle_index v n)"
    using find_swizzle_index_known [OF True] by simp
  also have "\<dots> = swizzles v ! nat (find_swizzle_index v c)"
    by (simp only: assms(2))
  also have "\<dots> = c"
    using find_swizzle_index_known [OF assms(1)] by simp
  finally show ?thesis .
next
  case False
  have "find_swizzle_index v n = - 1"
    by (rule find_swizzle_index_unknown [OF False])
  moreover have "0 \<le> find_swizzle_index v c"
    using find_swizzle_index_known [OF assms(1)] by simp
  ultimately have False using assms(2) by arith
  then show ?thesis ..
qed

lemma findIndex_from_distinct:
  "distinct xs \<Longrightarrow> k < length xs \<Longrightarrow> findIndex_from (\<lambda>w. xs ! k = w) i xs = i + int k"
proof (induction xs arbitrary: i k)
  case Nil
  then show ?case by simp
next
  case (Cons x xs)
  show ?case
  proof (cases k)
    case 0
    then show ?thesis by simp
  next
    case (Suc m)
    with Cons.prems have "m < length xs" "distinct xs" "xs ! m \<noteq> x"
      by auto
    with Cons.IH [of m "i + 1"] Suc show ?thesis by simp
  qed
qed

lemma find_swizzle_index_nth:
  "distinct (swizzles v) \<Longrightarrow> k < length (swizzles v) \<Longrightarrow>
   find_swizzle_index v (swizzles v ! k) = int k"
  unfolding find_swizzle_index_def findIndex_def
  using findIndex_from_distinct [of "swizzles v" k 0] by simp

lemma arr_get_arr_set:
  "arr_get (arr_set a i x) j = (if i = j \<or> (i < 0 \<and> j < 0) then x else arr_get a j)"
  by (auto simp: arr_get_def arr_set_def nth_append nth_list_update)

lemma find_swizzle_index_set_dimension [simp]:
  "find_swizzle_index (set_dimension v c x) n = find_swizzle_index v n"
  by (simp add: find_swizzle_index_def set_dimension_def)

lemma get_set_dimension_known:
  assumes "c \<in> set (swizzles v)"
  shows "get_dimension (set_dimension v c x) n = (if n = c then x else get_dimension v n)"
proof -
  have "0 \<le> find_swizzle_index v c" using find_swizzle_index_known [OF assms] by simp
  moreover have "find_swizzle_index v c = find_swizzle_index v n \<Longrightarrow> n = c"
    using find_swizzle_index_inj [OF assms, of n] by simp
  ultimately show ?thesis
    by (auto simp: get_dimension_def arr_get_arr_set set_dimension_def find_swizzle_index_def)
qed

lemma get_dimension_dense:
  assumes "distinct (swizzles v)" and "body v = dense cs" and "i < length (swizzles v)"
  shows "get_dimension v (swizzles v ! i) = (if i < length cs then cs ! i else Undefined)"
  using find_swizzle_index_nth [OF assms(1) assms(3)] assms(2)
  by (simp add: get_dimension_def arr_get_def dense_def)

lemma arr_get_dense: "i < length ys \<Longrightarrow> arr_get (dense ys) (int i) = ys ! i"
  by (simp add: arr_get_def dense_def)

section \<open>Construction and component access\<close>

text \<open>
  Claim C2 as stated fails: no constructor checks the length of the body, so none
  fails with an arity mismatch. A \<open>Vec3\<close> built from two values is a vector with two
  components, and the generic constructor given two names and three values stores all
  three.
\<close>

theorem arity_check_counterexample:
  "Vec3_constructor [Num 1, Num 2]
     = \<lparr>proto = Vec3_class, swizzles = [''x'', ''y'', ''z''],
        body = \<lparr>elems = [Some (Num 1), Some (Num 2)], minus_one = None\<rparr>\<rparr>
   \<and> arr_length (body (Vec3_constructor [Num 1, Num 2])) = 2
   \<and> arr_length (body (VecBase_constructor [''r'', ''g''] [Num 1, Num 2, Num 3])) = 3"
  by (simp add: Vec3_constructor_def Vec3_swizzle_particals_def VecBase_constructor_def
      arr_length_def dense_def)

text \<open>
  Claim C2, amended. Constructing a vector of arity N from exactly N values yields a
  vector with N components, and \<open>get_dimension (names ! i)\<close> returns the \<open>i\<close>-th value
  for every \<open>i\<close> below N: for \<open>Vec2\<close>, \<open>Vec3\<close> and \<open>Vec4\<close>, and for the generic
  constructor when its N names are pairwise distinct. Construction never fails: there
  is no check of the length at run time, and a body whose length is neither 1 nor N is
  stored as supplied. What a body of a single value gives is not part of this
  statement.
\<close>

theorem constructor_stores_body:
  "(distinct sw \<and> length cs = length sw \<and> i < length sw \<longrightarrow>
      swizzles (VecBase_constructor sw cs) = sw
      \<and> arr_length (body (VecBase_constructor sw cs)) = length sw
      \<and> get_dimension (VecBase_constructor sw cs) (sw ! i) = cs ! i)
   \<and> (i < 2 \<longrightarrow>
      arr_length (body (Vec2_constructor [a, b])) = 2
      \<and> get_dimension (Vec2_constructor [a, b]) (Vec2_swizzle_particals ! i) = [a, b] ! i)
   \<and> (i < 3 \<longrightarrow>
      arr_length (body (Vec3_constructor [a, b, c])) = 3
      \<and> get_dimension (Vec3_constructor [a, b, c]) (Vec3_swizzle_particals ! i)
          = [a, b, c] ! i)
   \<and> (i < 4 \<longrightarrow>
      arr_length (body (Vec4_constructor [a, b, c, d])) = 4
      \<and> get_dimension (Vec4_constructor [a, b, c, d]) (Vec4_swizzle_particals ! i)
          = [a, b, c, d] ! i)
   \<and> (length cs \<noteq> 1 \<longrightarrow>
      body (Vec2_constructor cs) = dense cs \<and> body (Vec3_constructor cs) = dense cs
      \<and> body (Vec4_constructor cs) = dense cs \<and> body (VecBase_constructor sw cs) = dense cs
      \<and> arr_length (dense cs) = length cs)"
proof (intro conjI impI)
  assume a: "distinct sw \<and> length cs = length sw \<and> i < length sw"
  show "swizzles (VecBase_constructor sw cs) = sw"
    by (simp add: VecBase_constructor_def)
  show "arr_length (body (VecBase_constructor sw cs)) = length sw"
    using a by (simp add: VecBase_constructor_def arr_length_def dense_def)
  show "get_dimension (VecBase_constructor sw cs) (sw ! i) = cs ! i"
    using a get_dimension_dense [of "VecBase_constructor sw cs" cs i]
    by (simp add: VecBase_constructor_def)
next
  assume a: "i < 2"
  show "arr_length (body (Vec2_constructor [a, b])) = 2"
    by (simp add: Vec2_constructor_def arr_length_def dense_def)
  show "get_dimension (Vec2_constructor [a, b]) (Vec2_swizzle_particals ! i) = [a, b] ! i"
    using a get_dimension_dense [of "Vec2_constructor [a, b]" "[a, b]" i]
    by (simp add: Vec2_constructor_def Vec2_swizzle_particals_def)
next
  assume a: "i < 3"
  show "arr_length (body (Vec3_constructor [a, b, c])) = 3"
    by (simp add: Vec3_constructor_def arr_length_def dense_def)
  show "get_dimension (Vec3_constructor [a, b, c]) (Vec3_swizzle_particals ! i) = [a, b, c] ! i"
    using a get_dimension_dense [of "Vec3_constructor [a, b, c]" "[a, b, c]" i]
    by (simp add: Vec3_constructor_def Vec3_swizzle_particals_def)
next
  assume a: "i < 4"
  show "arr_length (body (Vec4_constructor [a, b, c, d])) = 4"
    by (simp add: Vec4_constructor_def arr_length_def dense_def)
  show "get_dimension (Vec4_constructor [a, b, c, d]) (Vec4_swizzle_particals ! i)
      = [a, b, c, d] ! i"
    using a get_dimension_dense [of "Vec4_constructor [a, b, c, d]" "[a, b, c, d]" i]
    by (simp add: Vec4_constructor_def Vec4_swizzle_particals_def)
next
  show "body (Vec2_constructor cs) = dense cs" by (simp add: Vec2_constructor_def)
  show "body (Vec3_constructor cs) = dense cs" by (simp add: Vec3_constructor_def)
  show "body (Vec4_constructor cs) = dense cs" by (simp add: Vec4_constructor_def)
  show "body (VecBase_constructor sw cs) = dense cs" by (simp add: VecBase_constructor_def)
  show "arr_length (dense cs) = length cs" by (simp add: arr_length_def dense_def)
qed

theorem constructor_stores_body_witness:
  "get_dimension (VecBase_constructor [''r'', ''g''] [Num 7, Num 8]) ''g'' = Num 8
   \<and> get_dimension (Vec2_constructor [Num 7, Num 8]) ''y'' = Num 8
   \<and> get_dimension (Vec3_constructor [Num 7, Num 8, Num 9]) ''y'' = Num 8
   \<and> get_dimension (Vec4_constructor [Num 7, Num 8, Num 9, Num 6]) ''y'' = Num 8
   \<and> body (Vec3_constructor [Num 7, Num 8]) = dense [Num 7, Num 8]"
  using constructor_stores_body [of "[''r'', ''g'']" "[Num 7, Num 8]" 1
      "Num 7" "Num 8" "Num 9" "Num 6"]
  by (simp add: Vec2_swizzle_particals_def Vec3_swizzle_particals_def
      Vec4_swizzle_particals_def)

text \<open>
  Claim C5 as stated fails: neither accessor fails on an unknown name. On the vector
  (1,2,3) the name \<open>q\<close> reads undefined, and setting it to 7 succeeds, storing 7 under
  the array key \<open>-1\<close>.
\<close>

theorem unknown_component_counterexample:
  "get_dimension (Vec3_constructor [Num 1, Num 2, Num 3]) ''q'' = Undefined
   \<and> set_dimension (Vec3_constructor [Num 1, Num 2, Num 3]) ''q'' (Num 7)
      = \<lparr>proto = Vec3_class, swizzles = [''x'', ''y'', ''z''],
         body = \<lparr>elems = [Some (Num 1), Some (Num 2), Some (Num 3)],
                 minus_one = Some (Num 7)\<rparr>\<rparr>"
  by (simp add: Vec3_constructor_def Vec3_swizzle_particals_def dense_def
      get_dimension_def set_dimension_def find_swizzle_index_def findIndex_def
      arr_get_def arr_set_def)

text \<open>
  Claim C5, amended. For a name that is not among the vector's names neither accessor
  fails. \<open>get_dimension\<close> returns what the body holds under the key \<open>-1\<close>: undefined
  as long as no unknown name has been set, and otherwise the value last set under an
  unknown name. \<open>set_dimension\<close> stores the value under the key \<open>-1\<close> and leaves the
  length of the body and every indexed component as they were.
\<close>

theorem unknown_component_access:
  "name \<notin> set (swizzles v) \<longrightarrow>
     get_dimension v name = slot_value (minus_one (body v))
     \<and> (minus_one (body v) = None \<longrightarrow> get_dimension v name = Undefined)
     \<and> set_dimension v name x = v\<lparr>body := (body v)\<lparr>minus_one := Some x\<rparr>\<rparr>
     \<and> elems (body (set_dimension v name x)) = elems (body v)
     \<and> get_dimension (set_dimension v name x) name = x"
proof
  assume a: "name \<notin> set (swizzles v)"
  have i: "find_swizzle_index v name = - 1"
    by (rule find_swizzle_index_unknown [OF a])
  have g: "get_dimension v name = slot_value (minus_one (body v))"
    by (simp add: get_dimension_def i arr_get_def)
  have s: "set_dimension v name x = v\<lparr>body := (body v)\<lparr>minus_one := Some x\<rparr>\<rparr>"
    by (simp add: set_dimension_def i arr_set_def)
  have r: "get_dimension (set_dimension v name x) name = x"
    by (simp add: get_dimension_def i arr_get_arr_set set_dimension_def find_swizzle_index_def)
  show "get_dimension v name = slot_value (minus_one (body v))
     \<and> (minus_one (body v) = None \<longrightarrow> get_dimension v name = Undefined)
     \<and> set_dimension v name x = v\<lparr>body := (body v)\<lparr>minus_one := Some x\<rparr>\<rparr>
     \<and> elems (body (set_dimension v name x)) = elems (body v)
     \<and> get_dimension (set_dimension v name x) name = x"
    using g s r by simp
qed

theorem unknown_component_access_witness:
  "''q'' \<notin> set (swizzles (Vec2_constructor [Num 1, Num 2]))
   \<and> get_dimension (Vec2_constructor [Num 1, Num 2]) ''q'' = Undefined
   \<and> elems (body (set_dimension (Vec2_constructor [Num 1, Num 2]) ''q'' (Num 9)))
      = [Some (Num 1), Some (Num 2)]
   \<and> get_dimension (set_dimension (Vec2_constructor [Num 1, Num 2]) ''q'' (Num 9)) ''q''
      = Num 9"
  using unknown_component_access [of "''q''" "Vec2_constructor [Num 1, Num 2]" "Num 9"]
  by (simp add: Vec2_constructor_def Vec2_swizzle_particals_def dense_def
      get_dimension_def find_swizzle_index_def findIndex_def arr_get_def)

section \<open>Element-wise operations on the store\<close>

lemma exact_fpu_laws: "zero_start_laws exact_fpu"
proof -
  have "same_number (exact2 (-) (exact2 (+) (Num 0) p) q) (exact2 (-) p q)" for p q
    by (cases p; cases q) (simp_all add: same_number_def)
  moreover have "same_number (exact2 (+) (exact2 (-) (Num 0) q) p) (exact2 (-) p q)" for p q
    by (cases p; cases q) (simp_all add: same_number_def)
  ultimately show ?thesis by (simp add: zero_start_laws_def exact_fpu_def)
qed

lemma exact_fpu_integers: "integers_exact exact_fpu"
  by (simp add: integers_exact_def exact_fpu_def)

lemma clone_eq:
  "clone s this = (length s, s @ [\<lparr>proto = proto (s ! this), swizzles = swizzles (s ! this),
      body = body (s ! this)\<rparr>])"
  by (simp add: clone_def alloc_def Let_def)

lemma couple_element_wise_eq:
  assumes "this < length s" and "other < length s"
  shows "couple_element_wise s this other f =
     (length s, s @ [\<lparr>proto = proto (s ! this), swizzles = swizzles (s ! this),
        body = arr_map (\<lambda>v i. f v (arr_get (body (s ! other)) (int i))) (body (s ! this))\<rparr>])"
  using assms by (simp add: couple_element_wise_def clone_eq nth_append)

lemma arr_map_nth:
  "i < length (elems a) \<Longrightarrow> elems (arr_map f a) ! i = map_option (\<lambda>v. f v i) (elems a ! i)"
  by (simp add: arr_map_def nth_enumerate_eq)

lemma arr_map_shape:
  "arr_length (arr_map f a) = arr_length a" "minus_one (arr_map f a) = None"
  by (simp_all add: arr_map_def arr_length_def)

lemma arr_map_dense:
  "arr_map f (dense xs) = dense (map (\<lambda>i. f (xs ! i) i) [0..<length xs])"
proof -
  have "map (\<lambda>(i, e). map_option (\<lambda>v. f v i) e) (enumerate 0 (map Some xs))
      = map Some (map (\<lambda>i. f (xs ! i) i) [0..<length xs])"
    by (rule nth_equalityI) (simp_all add: nth_enumerate_eq)
  then show ?thesis
    by (simp add: arr_map_def dense_def)
qed

lemma arr_map_dense_zip:
  assumes "length xs \<le> length ys"
  shows "arr_map (\<lambda>v i. f v (arr_get (dense ys) (int i))) (dense xs) = dense (map2 f xs ys)"
proof -
  have "map (\<lambda>i. f (xs ! i) (arr_get (dense ys) (int i))) [0..<length xs] = map2 f xs ys"
    using assms by (intro nth_equalityI) (simp_all add: arr_get_dense)
  then show ?thesis by (simp add: arr_map_dense)
qed

text \<open>
  Claim C8. For a receiver and another vector of the store and every \<open>t\<close>, \<open>lerp\<close>
  returns a new vector: its reference is the length of the store before the call, so
  it is none of the vectors that existed, and these are unchanged. The new vector has
  the prototype and names of the receiver and a body of the receiver's length, which
  holds at each position of a component \<open>a\<close> of the receiver, with \<open>b\<close> what the
  other vector holds there: \<open>b\<close> when \<open>t > 1\<close>, \<open>a\<close> when \<open>t < 0\<close>, and otherwise
  \<open>a + (a + b) / 2\<close>, which does not depend on \<open>t\<close>. The operators are those of the
  platform, whatever they compute. A hole stays a hole. For two bodies without holes
  and of the same length, the new body is the list of these values.
\<close>

theorem lerp_formula:
  "this < length s \<and> other < length s \<longrightarrow>
     (\<exists>obj. lerp fp s this other t = (length s, s @ [obj])
        \<and> proto obj = proto (s ! this) \<and> swizzles obj = swizzles (s ! this)
        \<and> arr_length (body obj) = arr_length (body (s ! this))
        \<and> minus_one (body obj) = None
        \<and> (\<forall>i<arr_length (body (s ! this)).
              elems (body obj) ! i
                = map_option
                    (\<lambda>a. let b = arr_get (body (s ! other)) (int i)
                         in if fp_gt fp t (Num 1) then b
                            else if fp_lt fp t (Num 0) then a
                            else fp_add fp a (fp_div fp (fp_add fp a b) (Num 2)))
                    (elems (body (s ! this)) ! i))
        \<and> (body (s ! this) = dense us \<and> body (s ! other) = dense vs
              \<and> length us = length vs \<longrightarrow>
            body obj = dense (map2
              (\<lambda>a b. if fp_gt fp t (Num 1) then b
                     else if fp_lt fp t (Num 0) then a
                     else fp_add fp a (fp_div fp (fp_add fp a b) (Num 2))) us vs)))"
proof
  assume h: "this < length s \<and> other < length s"
  define F where "F = (\<lambda>a b. if fp_gt fp t (Num 1) then b
                     else if fp_lt fp t (Num 0) then a
                     else fp_add fp a (fp_div fp (fp_add fp a b) (Num 2)))"
  define obj where "obj = \<lparr>proto = proto (s ! this), swizzles = swizzles (s ! this),
        body = arr_map (\<lambda>v i. F v (arr_get (body (s ! other)) (int i))) (body (s ! this))\<rparr>"
  have l: "lerp fp s this other t = (length s, s @ [obj])"
    using h couple_element_wise_eq [of this s other F]
    by (simp add: lerp_def F_def obj_def)
  have n: "\<forall>i<arr_length (body (s ! this)).
      elems (body obj) ! i
        = map_option (\<lambda>a. F a (arr_get (body (s ! other)) (int i))) (elems (body (s ! this)) ! i)"
    by (simp add: obj_def arr_map_nth arr_length_def)
  have d: "body (s ! this) = dense us \<and> body (s ! other) = dense vs \<and> length us = length vs
      \<longrightarrow> body obj = dense (map2 F us vs)"
    by (simp add: obj_def arr_map_dense_zip)
  show "\<exists>obj. lerp fp s this other t = (length s, s @ [obj])
        \<and> proto obj = proto (s ! this) \<and> swizzles obj = swizzles (s ! this)
        \<and> arr_length (body obj) = arr_length (body (s ! this))
        \<and> minus_one (body obj) = None
        \<and> (\<forall>i<arr_length (body (s ! this)).
              elems (body obj) ! i
                = map_option
                    (\<lambda>a. let b = arr_get (body (s ! other)) (int i)
                         in if fp_gt fp t (Num 1) then b
                            else if fp_lt fp t (Num 0) then a
                            else fp_add fp a (fp_div fp (fp_add fp a b) (Num 2)))
                    (elems (body (s ! this)) ! i))
        \<and> (body (s ! this) = dense us \<and> body (s ! other) = dense vs
              \<and> length us = length vs \<longrightarrow>
            body obj = dense (map2
              (\<lambda>a b. if fp_gt fp t (Num 1) then b
                     else if fp_lt fp t (Num 0) then a
                     else fp_add fp a (fp_div fp (fp_add fp a b) (Num 2))) us vs))"
    apply (rule exI [of _ obj])
    using l n d
    by (simp add: F_def Let_def obj_def arr_map_shape)
qed

theorem lerp_formula_witness:
  "lerp exact_fpu [Vec2_constructor [Num 2, Num 4], Vec2_constructor [Num 6, Num 8]] 0 1 (Num 1)
     = (2, [Vec2_constructor [Num 2, Num 4], Vec2_constructor [Num 6, Num 8],
            Vec2_constructor [Num 6, Num 10]])"
proof -
  let ?s = "[Vec2_constructor [Num 2, Num 4], Vec2_constructor [Num 6, Num 8]]"
  from lerp_formula [of 0 ?s 1 exact_fpu "Num 1" "[Num 2, Num 4]" "[Num 6, Num 8]"]
  obtain obj where o: "lerp exact_fpu ?s 0 1 (Num 1) = (length ?s, ?s @ [obj])"
    "proto obj = proto (?s ! 0)" "swizzles obj = swizzles (?s ! 0)"
    "body (?s ! 0) = dense [Num 2, Num 4] \<and> body (?s ! 1) = dense [Num 6, Num 8]
      \<and> length [Num 2, Num 4] = length [Num 6, Num 8] \<longrightarrow>
     body obj = dense (map2
              (\<lambda>a b. if fp_gt exact_fpu (Num 1) (Num 1) then b
                     else if fp_lt exact_fpu (Num 1) (Num 0) then a
                     else fp_add exact_fpu a (fp_div exact_fpu (fp_add exact_fpu a b) (Num 2)))
               [Num 2, Num 4] [Num 6, Num 8])"
    by auto
  from o(4) have "body obj = dense [Num 6, Num 10]"
    by (simp add: Vec2_constructor_def exact_fpu_def)
  with o(2,3) have "obj = Vec2_constructor [Num 6, Num 10]"
    by (simp add: Vec2_constructor_def)
  with o(1) show ?thesis by simp
qed

section \<open>The cross product\<close>

lemma length3E: "length xs = 3 \<Longrightarrow> \<exists>a b c. xs = [a, b, c]"
  by (cases xs; simp; cases "tl xs"; simp; cases "tl (tl xs)"; simp)

lemma cross_unrolled:
  assumes "this < length s" and "other < length s"
    and "arr_length (body (s ! this)) = 3" and "arr_length (body (s ! other)) = 3"
  shows "cross fp s this other =
     (Some (length s), s @ [\<lparr>proto = proto (s ! this), swizzles = swizzles (s ! this),
        body = dense
          [fp_sub fp (fp_add fp (Num 0)
               (fp_mul fp (arr_get (body (s ! this)) 1) (arr_get (body (s ! other)) 2)))
             (fp_mul fp (arr_get (body (s ! this)) 2) (arr_get (body (s ! other)) 1)),
           fp_add fp (fp_sub fp (Num 0)
               (fp_mul fp (arr_get (body (s ! this)) 0) (arr_get (body (s ! other)) 2)))
             (fp_mul fp (arr_get (body (s ! this)) 2) (arr_get (body (s ! other)) 0)),
           fp_sub fp (fp_add fp (Num 0)
               (fp_mul fp (arr_get (body (s ! this)) 0) (arr_get (body (s ! other)) 1)))
             (fp_mul fp (arr_get (body (s ! this)) 1) (arr_get (body (s ! other)) 0))]\<rparr>])"
proof -
  from assms obtain e1 e2 e3 where ea: "elems (body (s ! this)) = [e1, e2, e3]"
    using length3E unfolding arr_length_def by blast
  from assms obtain f1 f2 f3 where eb: "elems (body (s ! other)) = [f1, f2, f3]"
    using length3E unfolding arr_length_def by blast
  show ?thesis
    using assms(1,2)
    by (simp add: cross_def Let_def clone_eq cross_step_def spread_def ea eb list_get_def
        arr_length_def arr_get_def nth_append)
qed

text \<open>
  Claim C1. For a receiver and another vector of the store with three components
  each, \<open>cross\<close> returns a new vector: its reference is the length of the store before
  the call, and the vectors that existed are unchanged. It has the prototype and names
  of the receiver, and its three components are what the loop computes in the
  arithmetic of the platform: the products and the difference of the standard formula,
  accumulated from the start value 0. Under the two facts of IEEE-754 about that start
  value, each component is the same number as \<open>a.y*b.z - a.z*b.y\<close>,
  \<open>a.z*b.x - a.x*b.z\<close> and \<open>a.x*b.y - a.y*b.x\<close>, up to the sign of a zero. In an
  arithmetic that is exact on small integers, as IEEE-754 is, (1,2,3) and (4,5,6) give
  (-3,6,-3). A receiver whose body does not have length 3 gets \<open>undefined\<close> (\<open>None\<close>)
  and the store is unchanged.
\<close>

theorem cross_standard_formula:
  "(this < length s \<and> other < length s
      \<and> arr_length (body (s ! this)) = 3 \<and> arr_length (body (s ! other)) = 3
      \<and> ax = arr_get (body (s ! this)) 0 \<and> ay = arr_get (body (s ! this)) 1
      \<and> az = arr_get (body (s ! this)) 2
      \<and> bx = arr_get (body (s ! other)) 0 \<and> by = arr_get (body (s ! other)) 1
      \<and> bz = arr_get (body (s ! other)) 2 \<longrightarrow>
      (\<exists>rx ry rz.
         cross fp s this other =
           (Some (length s), s @ [\<lparr>proto = proto (s ! this), swizzles = swizzles (s ! this),
              body = dense [rx, ry, rz]\<rparr>])
         \<and> rx = fp_sub fp (fp_add fp (Num 0) (fp_mul fp ay bz)) (fp_mul fp az by)
         \<and> ry = fp_add fp (fp_sub fp (Num 0) (fp_mul fp ax bz)) (fp_mul fp az bx)
         \<and> rz = fp_sub fp (fp_add fp (Num 0) (fp_mul fp ax by)) (fp_mul fp ay bx)
         \<and> (zero_start_laws fp \<longrightarrow>
               same_number rx (fp_sub fp (fp_mul fp ay bz) (fp_mul fp az by))
               \<and> same_number ry (fp_sub fp (fp_mul fp az bx) (fp_mul fp ax bz))
               \<and> same_number rz (fp_sub fp (fp_mul fp ax by) (fp_mul fp ay bx)))))
   \<and> (integers_exact fp \<and> this < length s \<and> other < length s
        \<and> s ! this = Vec3_constructor [Num 1, Num 2, Num 3]
        \<and> s ! other = Vec3_constructor [Num 4, Num 5, Num 6] \<longrightarrow>
        cross fp s this other
          = (Some (length s), s @ [Vec3_constructor [Num (- 3), Num 6, Num (- 3)]]))
   \<and> (arr_length (body (s ! this)) \<noteq> 3 \<longrightarrow> cross fp s this other = (None, s))"
proof (intro conjI impI)
  assume h: "this < length s \<and> other < length s
      \<and> arr_length (body (s ! this)) = 3 \<and> arr_length (body (s ! other)) = 3
      \<and> ax = arr_get (body (s ! this)) 0 \<and> ay = arr_get (body (s ! this)) 1
      \<and> az = arr_get (body (s ! this)) 2
      \<and> bx = arr_get (body (s ! other)) 0 \<and> by = arr_get (body (s ! other)) 1
      \<and> bz = arr_get (body (s ! other)) 2"
  then have u: "cross fp s this other =
     (Some (length s), s @ [\<lparr>proto = proto (s ! this), swizzles = swizzles (s ! this),
        body = dense
          [fp_sub fp (fp_add fp (Num 0) (fp_mul fp ay bz)) (fp_mul fp az by),
           fp_add fp (fp_sub fp (Num 0) (fp_mul fp ax bz)) (fp_mul fp az bx),
           fp_sub fp (fp_add fp (Num 0) (fp_mul fp ax by)) (fp_mul fp ay bx)]\<rparr>])"
    using cross_unrolled [of this s other fp] by simp
  have l: "zero_start_laws fp \<longrightarrow>
      same_number (fp_sub fp (fp_add fp (Num 0) (fp_mul fp ay bz)) (fp_mul fp az by))
        (fp_sub fp (fp_mul fp ay bz) (fp_mul fp az by))
      \<and> same_number (fp_add fp (fp_sub fp (Num 0) (fp_mul fp ax bz)) (fp_mul fp az bx))
        (fp_sub fp (fp_mul fp az bx) (fp_mul fp ax bz))
      \<and> same_number (fp_sub fp (fp_add fp (Num 0) (fp_mul fp ax by)) (fp_mul fp ay bx))
        (fp_sub fp (fp_mul fp ax by) (fp_mul fp ay bx))"
    by (simp add: zero_start_laws_def)
  show "\<exists>rx ry rz.
         cross fp s this other =
           (Some (length s), s @ [\<lparr>proto = proto (s ! this), swizzles = swizzles (s ! this),
              body = dense [rx, ry, rz]\<rparr>])
         \<and> rx = fp_sub fp (fp_add fp (Num 0) (fp_mul fp ay bz)) (fp_mul fp az by)
         \<and> ry = fp_add fp (fp_sub fp (Num 0) (fp_mul fp ax bz)) (fp_mul fp az bx)
         \<and> rz = fp_sub fp (fp_add fp (Num 0) (fp_mul fp ax by)) (fp_mul fp ay bx)
         \<and> (zero_start_laws fp \<longrightarrow>
               same_number rx (fp_sub fp (fp_mul fp ay bz) (fp_mul fp az by))
               \<and> same_number ry (fp_sub fp (fp_mul fp az bx) (fp_mul fp ax bz))
               \<and> same_number rz (fp_sub fp (fp_mul fp ax by) (fp_mul fp ay bx)))"
    using u l by blast
next
  assume h: "integers_exact fp \<and> this < length s \<and> other < length s
        \<and> s ! this = Vec3_constructor [Num 1, Num 2, Num 3]
        \<and> s ! other = Vec3_constructor [Num 4, Num 5, Num 6]"
  then have e: "\<bar>m\<bar> \<le> 1000 \<and> \<bar>n\<bar> \<le> 1000 \<Longrightarrow>
        fp_add fp (Num (of_int m)) (Num (of_int n)) = Num (of_int (m + n))
        \<and> fp_sub fp (Num (of_int m)) (Num (of_int n)) = Num (of_int (m - n))
        \<and> (m \<noteq> 0 \<and> n \<noteq> 0 \<longrightarrow>
             fp_mul fp (Num (of_int m)) (Num (of_int n)) = Num (of_int (m * n)))" for m n :: int
    unfolding integers_exact_def by blast
  have m: "fp_mul fp (Num 2) (Num 6) = Num 12" "fp_mul fp (Num 3) (Num 5) = Num 15"
    "fp_mul fp (Num 1) (Num 6) = Num 6" "fp_mul fp (Num 3) (Num 4) = Num 12"
    "fp_mul fp (Num 1) (Num 5) = Num 5" "fp_mul fp (Num 2) (Num 4) = Num 8"
    using e [of 2 6] e [of 3 5] e [of 1 6] e [of 3 4] e [of 1 5] e [of 2 4] by simp_all
  have a: "fp_add fp (Num 0) (Num 12) = Num 12" "fp_sub fp (Num 12) (Num 15) = Num (- 3)"
    "fp_sub fp (Num 0) (Num 6) = Num (- 6)" "fp_add fp (Num (- 6)) (Num 12) = Num 6"
    "fp_add fp (Num 0) (Num 5) = Num 5" "fp_sub fp (Num 5) (Num 8) = Num (- 3)"
    using e [of 0 12] e [of 12 15] e [of 0 6] e [of "- 6" 12] e [of 0 5] e [of 5 8]
    by simp_all
  have b: "body (s ! this) = dense [Num 1, Num 2, Num 3]"
    "body (s ! other) = dense [Num 4, Num 5, Num 6]"
    using h by (simp_all add: Vec3_constructor_def)
  show "cross fp s this other
          = (Some (length s), s @ [Vec3_constructor [Num (- 3), Num 6, Num (- 3)]])"
    using h cross_unrolled [of this s other fp]
    by (simp add: b m a arr_length_def dense_def arr_get_def Vec3_constructor_def)
next
  assume "arr_length (body (s ! this)) \<noteq> 3"
  then show "cross fp s this other = (None, s)"
    by (simp add: cross_def)
qed

theorem cross_standard_formula_witness:
  "zero_start_laws exact_fpu \<and> integers_exact exact_fpu
   \<and> cross exact_fpu [Vec3_constructor [Num 2, Num 0, Num 1],
                      Vec3_constructor [Num 1, Num 3, Num 0]] 0 1
      = (Some 2, [Vec3_constructor [Num 2, Num 0, Num 1],
                  Vec3_constructor [Num 1, Num 3, Num 0],
                  Vec3_constructor [Num (- 3), Num 1, Num 6]])
   \<and> cross exact_fpu [Vec3_constructor [Num 1, Num 2, Num 3],
                      Vec3_constructor [Num 4, Num 5, Num 6]] 0 1
      = (Some 2, [Vec3_constructor [Num 1, Num 2, Num 3],
                  Vec3_constructor [Num 4, Num 5, Num 6],
                  Vec3_constructor [Num (- 3), Num 6, Num (- 3)]])
   \<and> cross exact_fpu [Vec4_constructor [Num 1, Num 2, Num 3, Num 4]] 0 0
      = (None, [Vec4_constructor [Num 1, Num 2, Num 3, Num 4]])"
proof -
  let ?s = "[Vec3_constructor [Num 2, Num 0, Num 1], Vec3_constructor [Num 1, Num 3, Num 0]]"
  let ?t = "[Vec3_constructor [Num 1, Num 2, Num 3], Vec3_constructor [Num 4, Num 5, Num 6]]"
  let ?u = "[Vec4_constructor [Num 1, Num 2, Num 3, Num 4]]"
  have g: "arr_get (body (?s ! 0)) 0 = Num 2" "arr_get (body (?s ! 0)) 1 = Num 0"
    "arr_get (body (?s ! 0)) 2 = Num 1" "arr_get (body (?s ! 1)) 0 = Num 1"
    "arr_get (body (?s ! 1)) 1 = Num 3" "arr_get (body (?s ! 1)) 2 = Num 0"
    "arr_length (body (?s ! 0)) = 3" "arr_length (body (?s ! 1)) = 3"
    by (simp_all add: Vec3_constructor_def dense_def arr_get_def arr_length_def)
  from cross_standard_formula [of 0 ?s 1 "Num 2" "Num 0" "Num 1" "Num 1" "Num 3" "Num 0"
      exact_fpu] g
  obtain rx ry rz where r:
    "cross exact_fpu ?s 0 1 =
       (Some (length ?s), ?s @ [\<lparr>proto = proto (?s ! 0), swizzles = swizzles (?s ! 0),
          body = dense [rx, ry, rz]\<rparr>])"
    "rx = fp_sub exact_fpu (fp_add exact_fpu (Num 0) (fp_mul exact_fpu (Num 0) (Num 0)))
            (fp_mul exact_fpu (Num 1) (Num 3))"
    "ry = fp_add exact_fpu (fp_sub exact_fpu (Num 0) (fp_mul exact_fpu (Num 2) (Num 0)))
            (fp_mul exact_fpu (Num 1) (Num 1))"
    "rz = fp_sub exact_fpu (fp_add exact_fpu (Num 0) (fp_mul exact_fpu (Num 2) (Num 3)))
            (fp_mul exact_fpu (Num 0) (Num 1))"
    by auto
  have "rx = Num (- 3)" "ry = Num 1" "rz = Num 6"
    using r(2,3,4) by (simp_all add: exact_fpu_def)
  with r(1) have c1: "cross exact_fpu ?s 0 1
      = (Some 2, ?s @ [Vec3_constructor [Num (- 3), Num 1, Num 6]])"
    by (simp add: Vec3_constructor_def)
  have c2: "cross exact_fpu ?t 0 1
      = (Some 2, ?t @ [Vec3_constructor [Num (- 3), Num 6, Num (- 3)]])"
    using cross_standard_formula [of 0 ?t 1 _ _ _ _ _ _ exact_fpu] exact_fpu_integers
    by simp
  have c3: "cross exact_fpu ?u 0 0 = (None, ?u)"
    using cross_standard_formula [of 0 ?u 0 _ _ _ _ _ _ exact_fpu]
    by (simp add: Vec4_constructor_def arr_length_def dense_def)
  show ?thesis
    using c1 c2 c3 exact_fpu_laws exact_fpu_integers by simp
qed

section \<open>Reads and writes through the proxy\<close>

text \<open>
  Claim C3, at the input where the code departs from it. \<open>swizzleMatch\<close> has no lower
  bound on the length: it accepts the empty list of characters, and reading the key
  \<open>""\<close> of the proxied vector (1,2,3) returns a proxied \<open>VecBase\<close> with the three
  names and an empty body instead of undefined.
\<close>

theorem empty_pattern_accepted:
  "swizzleMatch Vec3_swizzle_particals (split_chars '''')
   \<and> proxy_read (Vec3_new [Num 1, Num 2, Num 3]) (Str '''')
      = Proxied (VecBase_constructor [''x'', ''y'', ''z''] []) [''x'', ''y'', ''z'']"
  by (simp add: swizzleMatch_def split_chars_def Vec3_new_def createVecProxy_def
      get_handler_def own_properties_def VecBase_prototype_def Object_prototype_def
      Vec3_swizzle_particals_def)

text \<open>
  Claim C10. For a string key that the target does not have, assigning a value that is
  not an instance of \<open>VecBase\<close> (a primitive, or a plain object whatever its fields)
  returns false and leaves the target as it was; and whenever the handler returns true
  for such a key, the assigned value is an instance.
\<close>

theorem non_instance_write_rejected:
  "\<not> Reflect_has target (Str key) \<longrightarrow>
     set_handler sw target (Str key) (Prim x) = Returned False target
     \<and> set_handler sw target (Str key) (PlainObject fs) = Returned False target
     \<and> (set_handler sw target (Str key) val = Returned True target'
          \<longrightarrow> (\<exists>src. val = Instance src))"
  by (cases val) (simp_all add: set_handler_def)

theorem non_instance_write_rejected_witness:
  "\<not> Reflect_has (Vec2_constructor [Num 1, Num 2]) (Str ''xy'')
   \<and> set_handler Vec2_swizzle_particals (Vec2_constructor [Num 1, Num 2]) (Str ''xy'')
        (PlainObject [(''x'', Num 10), (''y'', Num 20)])
      = Returned False (Vec2_constructor [Num 1, Num 2])
   \<and> set_handler Vec2_swizzle_particals (Vec2_constructor [Num 1, Num 2]) (Str ''xy'')
        (Prim (Num 3))
      = Returned False (Vec2_constructor [Num 1, Num 2])"
  using non_instance_write_rejected [of "Vec2_constructor [Num 1, Num 2]" "''xy''"
      Vec2_swizzle_particals "Num 3" "[(''x'', Num 10), (''y'', Num 20)]" "Prim (Num 3)"]
  by (simp add: own_properties_def VecBase_prototype_def Object_prototype_def)

lemma set_loop_ok:
  "\<forall>c\<in>set cs. c \<in> set (swizzles t) \<and> is_number (get_dimension src c) \<Longrightarrow>
   \<exists>t'. set_loop t src cs = (True, t') \<and> swizzles t' = swizzles t \<and> proto t' = proto t
     \<and> (\<forall>c\<in>set cs. get_dimension t' c = get_dimension src c)
     \<and> (\<forall>n. n \<notin> set cs \<longrightarrow> get_dimension t' n = get_dimension t n)"
proof (induction cs arbitrary: t)
  case Nil
  then show ?case by simp
next
  case (Cons c cs)
  define x where "x = get_dimension src c"
  define t1 where "t1 = set_dimension t c x"
  have c: "c \<in> set (swizzles t)" and x: "is_number x"
    using Cons.prems by (simp_all add: x_def)
  have sw1: "swizzles t1 = swizzles t" and pr1: "proto t1 = proto t"
    by (simp_all add: t1_def set_dimension_def)
  have g1: "get_dimension t1 n = (if n = c then x else get_dimension t n)" for n
    unfolding t1_def by (rule get_set_dimension_known [OF c])
  have "\<forall>c\<in>set cs. c \<in> set (swizzles t1) \<and> is_number (get_dimension src c)"
    using Cons.prems sw1 by simp
  from Cons.IH [OF this] obtain t' where t':
    "set_loop t1 src cs = (True, t')" "swizzles t' = swizzles t1" "proto t' = proto t1"
    "\<forall>c\<in>set cs. get_dimension t' c = get_dimension src c"
    "\<forall>n. n \<notin> set cs \<longrightarrow> get_dimension t' n = get_dimension t1 n"
    by blast
  have "set_loop t src (c # cs) = (True, t')"
    using x t'(1) by (simp add: x_def t1_def Let_def)
  moreover have "get_dimension t' c = get_dimension src c"
  proof (cases "c \<in> set cs")
    case True
    then show ?thesis using t'(4) by simp
  next
    case False
    then show ?thesis using t'(5) g1 [of c] by (simp add: x_def)
  qed
  moreover have "\<forall>n. n \<notin> set (c # cs) \<longrightarrow> get_dimension t' n = get_dimension t n"
    using t'(5) g1 by simp
  ultimately show ?case
    using t'(2,3,4) sw1 pr1 by simp
qed

lemma set_loop_append:
  "set_loop t src (xs @ ys) =
     (case set_loop t src xs of (ok, t1) \<Rightarrow> if ok then set_loop t1 src ys else (False, t1))"
  by (induction xs arbitrary: t) (simp_all add: Let_def)

lemma set_loop_fail:
  assumes "\<forall>c\<in>set pre. c \<in> set (swizzles t) \<and> is_number (get_dimension src c)"
    and "\<not> is_number (get_dimension src f)"
  shows "\<exists>t'. set_loop t src (pre @ f # post) = (False, t') \<and> swizzles t' = swizzles t
     \<and> (\<forall>c\<in>set pre. get_dimension t' c = get_dimension src c)
     \<and> (\<forall>n. n \<notin> set pre \<longrightarrow> get_dimension t' n = get_dimension t n)"
proof -
  from set_loop_ok [OF assms(1)] obtain t' where t':
    "set_loop t src pre = (True, t')" "swizzles t' = swizzles t"
    "\<forall>c\<in>set pre. get_dimension t' c = get_dimension src c"
    "\<forall>n. n \<notin> set pre \<longrightarrow> get_dimension t' n = get_dimension t n"
    by blast
  have "set_loop t src (pre @ f # post) = (False, t')"
    using t'(1) assms(2) by (simp add: set_loop_append Let_def)
  with t'(2,3,4) show ?thesis by simp
qed

lemma swizzleMatch_iff:
  "swizzleMatch sw (split_chars p) = (length p \<le> length sw \<and> (\<forall>c\<in>set p. [c] \<in> set sw))"
  by (auto simp: swizzleMatch_def split_chars_def list_all_iff)

lemma members_checked:
  "list_all (\<lambda>s. list_ex (\<lambda>c. c \<notin> set ''xyzw'') s)
     (own_properties @ VecBase_prototype @ Object_prototype)"
  by code_simp

lemma member_has_other_char:
  "s \<in> set (own_properties @ VecBase_prototype @ Object_prototype) \<Longrightarrow>
   \<exists>c\<in>set s. c \<notin> {CHR ''x'', CHR ''y'', CHR ''z'', CHR ''w''}"
  using members_checked unfolding list_all_iff list_ex_iff by auto

lemma xyzw_pattern_not_member:
  assumes "set sw \<subseteq> set Vec4_swizzle_particals" and "\<forall>c\<in>set p. [c] \<in> set sw"
  shows "\<not> Reflect_has v (Str p)"
proof
  assume "Reflect_has v (Str p)"
  then obtain c where c: "c \<in> set p" "c \<notin> {CHR ''x'', CHR ''y'', CHR ''z'', CHR ''w''}"
    using member_has_other_char [of p] by auto
  from c(1) assms have "[c] \<in> set Vec4_swizzle_particals" by auto
  with c(2) show False by (simp add: Vec4_swizzle_particals_def)
qed

lemma get_handler_pattern:
  assumes "\<not> Reflect_has v (Str p)" and "swizzleMatch sw (split_chars p)"
  shows "get_handler sw v (Str p) =
     (let result = map (\<lambda>c. get_dimension v [c]) p
      in if length p = 1 then Value (result ! 0)
         else if length p = 2 then Proxied (Vec2_constructor result) Vec2_swizzle_particals
         else if length p = 3 then Proxied (Vec3_constructor result) Vec3_swizzle_particals
         else if length p = 4 then Proxied (Vec4_constructor result) Vec4_swizzle_particals
         else Proxied (VecBase_constructor sw result) sw)"
proof -
  have "map (get_dimension v) (split_chars p) = map (\<lambda>c. get_dimension v [c]) p"
    by (simp add: split_chars_def comp_def)
  moreover have "length (split_chars p) = length p"
    by (simp add: split_chars_def)
  ultimately show ?thesis
    using assms by (simp add: get_handler_def Let_def)
qed

lemma get_dimension_number:
  assumes "c \<in> set (swizzles v)" and "length (elems (body v)) = length (swizzles v)"
    and "\<forall>e\<in>set (elems (body v)). \<exists>x. e = Some x \<and> is_number x"
  shows "is_number (get_dimension v c)"
proof -
  from find_swizzle_index_known [OF assms(1)]
  have i: "0 \<le> find_swizzle_index v c" "nat (find_swizzle_index v c) < length (elems (body v))"
    using assms(2) by simp_all
  then have "elems (body v) ! nat (find_swizzle_index v c) \<in> set (elems (body v))"
    by simp
  with assms(3) obtain x where "elems (body v) ! nat (find_swizzle_index v c) = Some x" "is_number x"
    by blast
  with i show ?thesis
    by (simp add: get_dimension_def arr_get_def)
qed

lemmas members_defs = own_properties_def VecBase_prototype_def Object_prototype_def

lemmas eval_defs = Vec2_constructor_def Vec3_constructor_def Vec4_constructor_def
  Vec2_swizzle_particals_def Vec3_swizzle_particals_def Vec4_swizzle_particals_def
  Vec2_new_def Vec3_new_def Vec4_new_def createVecProxy_def dense_def
  get_dimension_def set_dimension_def find_swizzle_index_def findIndex_def
  arr_get_def arr_set_def swizzleMatch_def split_chars_def Let_def

text \<open>
  What a read of a valid pattern returns in general: the component of the single
  character, or a proxied vector whose body gathers the components in the order of the
  pattern. The values gathered are numbers when the target holds a number under each
  of its names.
\<close>

lemma valid_read_gathers:
  "(p \<noteq> [] \<and> length p \<le> length sw \<and> (\<forall>c\<in>set p. [c] \<in> set sw)
      \<and> \<not> Reflect_has v (Str p) \<longrightarrow>
     (length p = 1 \<longrightarrow> get_handler sw v (Str p) = Value (get_dimension v p))
     \<and> (2 \<le> length p \<longrightarrow>
          (\<exists>w names. get_handler sw v (Str p) = Proxied w names
             \<and> body w = dense (map (\<lambda>c. get_dimension v [c]) p)
             \<and> arr_length (body w) = length p
             \<and> (\<forall>i<length p. arr_get (body w) (int i) = get_dimension v [p ! i])))
     \<and> (swizzles v = sw \<and> length (elems (body v)) = length sw
          \<and> (\<forall>e\<in>set (elems (body v)). \<exists>x. e = Some x \<and> is_number x)
          \<longrightarrow> (\<forall>c\<in>set p. is_number (get_dimension v [c]))))
   \<and> (set sw \<subseteq> set Vec4_swizzle_particals \<and> (\<forall>c\<in>set p. [c] \<in> set sw)
        \<longrightarrow> \<not> Reflect_has v (Str p))
   \<and> proxy_read (Vec3_new [Num 1, Num 2, Num 3]) (Str ''zyx'')
      = Proxied (Vec3_constructor [Num 3, Num 2, Num 1]) Vec3_swizzle_particals
   \<and> proxy_read (Vec3_new [a, b, c]) (Str ''xx'')
      = Proxied (Vec2_constructor [a, a]) Vec2_swizzle_particals"
proof (intro impI conjI)
  assume h: "p \<noteq> [] \<and> length p \<le> length sw \<and> (\<forall>c\<in>set p. [c] \<in> set sw)
      \<and> \<not> Reflect_has v (Str p)"
  then have m: "swizzleMatch sw (split_chars p)" and nh: "\<not> Reflect_has v (Str p)"
    by (simp_all add: swizzleMatch_iff)
  note gh = get_handler_pattern [OF nh m]
  {
    assume "length p = 1"
    then obtain c where "p = [c]" by (cases p) auto
    then show "get_handler sw v (Str p) = Value (get_dimension v p)"
      using gh by simp
  }
  {
    assume l: "2 \<le> length p"
    define r where "r = map (\<lambda>c. get_dimension v [c]) p"
    have b: "\<exists>w names. get_handler sw v (Str p) = Proxied w names \<and> body w = dense r"
      using gh l
      by (auto simp: Let_def r_def Vec2_constructor_def Vec3_constructor_def
          Vec4_constructor_def VecBase_constructor_def)
    have "arr_length (dense r) = length p"
      by (simp add: arr_length_def dense_def r_def)
    moreover have "\<forall>i<length p. arr_get (dense r) (int i) = get_dimension v [p ! i]"
      by (simp add: arr_get_dense r_def)
    ultimately show "\<exists>w names. get_handler sw v (Str p) = Proxied w names
             \<and> body w = dense (map (\<lambda>c. get_dimension v [c]) p)
             \<and> arr_length (body w) = length p
             \<and> (\<forall>i<length p. arr_get (body w) (int i) = get_dimension v [p ! i])"
      using b unfolding r_def by auto
  }
  {
    assume wf: "swizzles v = sw \<and> length (elems (body v)) = length sw
          \<and> (\<forall>e\<in>set (elems (body v)). \<exists>x. e = Some x \<and> is_number x)"
    show "\<forall>c\<in>set p. is_number (get_dimension v [c])"
    proof
      fix c assume "c \<in> set p"
      with h wf have "[c] \<in> set (swizzles v)" by simp
      then show "is_number (get_dimension v [c])"
        using wf by (intro get_dimension_number) simp_all
    qed
  }
next
  assume "set sw \<subseteq> set Vec4_swizzle_particals \<and> (\<forall>c\<in>set p. [c] \<in> set sw)"
  then show "\<not> Reflect_has v (Str p)"
    using xyzw_pattern_not_member [of sw p v] by simp
next
  show "proxy_read (Vec3_new [Num 1, Num 2, Num 3]) (Str ''zyx'')
      = Proxied (Vec3_constructor [Num 3, Num 2, Num 1]) Vec3_swizzle_particals"
    by (simp add: get_handler_def members_defs eval_defs)
next
  show "proxy_read (Vec3_new [a, b, c]) (Str ''xx'')
      = Proxied (Vec2_constructor [a, a]) Vec2_swizzle_particals"
    by (simp add: get_handler_def members_defs eval_defs)
qed

text \<open>
  Claim C6, at an input where the code departs from it. The types let \<open>Vec3.new\<close>
  take a single value, and the vector then holds one component under three names (the
  constructor does not repeat the value). Through its proxy the valid pattern \<open>y\<close>
  reads undefined, not a number, and the valid pattern \<open>xy\<close> reads a vector whose
  second component is undefined.
\<close>

theorem read_of_single_value_vector:
  "swizzleMatch Vec3_swizzle_particals (split_chars ''y'')
   \<and> proxy_read (Vec3_new [Num 5]) (Str ''y'') = Value Undefined
   \<and> \<not> is_number Undefined
   \<and> proxy_read (Vec3_new [Num 5]) (Str ''xy'')
      = Proxied (Vec2_constructor [Num 5, Undefined]) Vec2_swizzle_particals"
  by (simp add: get_handler_def members_defs eval_defs)

text \<open>
  Claim C4, at inputs where the code departs from it. The write reads the assigned
  vector by the name of each character, not by position. Assigning the vector (10,20),
  whose names are \<open>x\<close> and \<open>y\<close>, to the key \<open>yx\<close> of (1,2,3) gives (10,20,3): the
  component named by the first character, \<open>y\<close>, is 20, while the assigned vector's
  component at position 0 is 10. Assigning to \<open>yx\<close> the vector (2,1) that reading
  \<open>yx\<close> returns swaps the two components. Assigning (10,20) to the key \<open>zx\<close> returns
  false and writes nothing, since a vector of two components has no name \<open>z\<close>.
\<close>

theorem swizzle_write_not_positional:
  "proxy_write (Vec3_new [Num 1, Num 2, Num 3]) (Str ''yx'')
       (Instance (Vec2_constructor [Num 10, Num 20]))
     = Returned True (Vec3_constructor [Num 10, Num 20, Num 3])
   \<and> arr_get (body (Vec2_constructor [Num 10, Num 20])) 0 = Num 10
   \<and> get_dimension (Vec3_constructor [Num 10, Num 20, Num 3]) ''y'' = Num 20
   \<and> proxy_read (Vec3_new [Num 1, Num 2, Num 3]) (Str ''yx'')
     = Proxied (Vec2_constructor [Num 2, Num 1]) Vec2_swizzle_particals
   \<and> proxy_write (Vec3_new [Num 1, Num 2, Num 3]) (Str ''yx'')
       (Instance (Vec2_constructor [Num 2, Num 1]))
     = Returned True (Vec3_constructor [Num 2, Num 1, Num 3])
   \<and> proxy_write (Vec3_new [Num 1, Num 2, Num 3]) (Str ''zx'')
       (Instance (Vec2_constructor [Num 10, Num 20]))
     = Returned False (Vec3_constructor [Num 1, Num 2, Num 3])"
  by (simp add: set_handler_def get_handler_def members_defs eval_defs)

text \<open>
  Claim C9 as stated fails where a character after the failing one also occurs before
  it. Assigning the vector (10,20), with names \<open>x\<close> and \<open>y\<close>, to the key \<open>xzx\<close> of
  (1,2,3) returns false at \<open>z\<close> and leaves (10,2,3): the component of the character
  after the failing one, \<open>x\<close>, has changed.
\<close>

theorem partial_write_counterexample:
  "proxy_write (Vec3_new [Num 1, Num 2, Num 3]) (Str ''xzx'')
       (Instance (Vec2_constructor [Num 10, Num 20]))
     = Returned False (Vec3_constructor [Num 10, Num 2, Num 3])
   \<and> get_dimension (Vec3_constructor [Num 10, Num 2, Num 3]) ''x''
     \<noteq> get_dimension (Vec3_constructor [Num 1, Num 2, Num 3]) ''x''"
  by (simp add: set_handler_def members_defs eval_defs)

text \<open>
  Claim C9, amended. Through a view whose names are the target's, let the key be
  accepted by \<open>swizzleMatch\<close> and split as \<open>pre @ f # post\<close>, where the assigned vector
  has a number under every character of \<open>pre\<close> and none under \<open>f\<close>. The write then
  returns false, and in the target it leaves, every component named by a character of
  \<open>pre\<close> holds the assigned vector's value, while every component not named by a
  character of \<open>pre\<close>, the one named \<open>f\<close> among them, is unchanged.
\<close>

theorem swizzle_write_not_atomic:
  "swizzles target = sw \<and> swizzleMatch sw (split_chars (pre @ f # post))
      \<and> \<not> Reflect_has target (Str (pre @ f # post))
      \<and> (\<forall>c\<in>set pre. is_number (get_dimension src [c]))
      \<and> \<not> is_number (get_dimension src [f]) \<longrightarrow>
      (\<exists>target'. set_handler sw target (Str (pre @ f # post)) (Instance src)
            = Returned False target'
          \<and> (\<forall>c\<in>set pre. get_dimension target' [c] = get_dimension src [c])
          \<and> (\<forall>n. n \<notin> set (split_chars pre) \<longrightarrow>
                get_dimension target' n = get_dimension target n)
          \<and> get_dimension target' [f] = get_dimension target [f])"
proof
  assume h: "swizzles target = sw \<and> swizzleMatch sw (split_chars (pre @ f # post))
      \<and> \<not> Reflect_has target (Str (pre @ f # post))
      \<and> (\<forall>c\<in>set pre. is_number (get_dimension src [c]))
      \<and> \<not> is_number (get_dimension src [f])"
  then have "\<forall>c\<in>set pre. [c] \<in> set (swizzles target)"
    by (simp add: swizzleMatch_iff)
  with h have p: "\<forall>c\<in>set (split_chars pre).
      c \<in> set (swizzles target) \<and> is_number (get_dimension src c)"
    by (auto simp: split_chars_def)
  have s: "split_chars (pre @ f # post) = split_chars pre @ [f] # split_chars post"
    by (simp add: split_chars_def)
  from h have f: "\<not> is_number (get_dimension src [f])" by simp
  from set_loop_fail [OF p f, of "split_chars post"] obtain t' where t':
    "set_loop target src (split_chars (pre @ f # post)) = (False, t')"
    "\<forall>c\<in>set (split_chars pre). get_dimension t' c = get_dimension src c"
    "\<forall>n. n \<notin> set (split_chars pre) \<longrightarrow> get_dimension t' n = get_dimension target n"
    unfolding s by blast
  have "set_handler sw target (Str (pre @ f # post)) (Instance src) = Returned False t'"
    using h t'(1) by (simp add: set_handler_def)
  moreover have "\<forall>c\<in>set pre. get_dimension t' [c] = get_dimension src [c]"
    using t'(2) by (simp add: split_chars_def)
  moreover have "[f] \<notin> set (split_chars pre)"
    using p f by blast
  then have "get_dimension t' [f] = get_dimension target [f]"
    using t'(3) by blast
  ultimately show "\<exists>target'. set_handler sw target (Str (pre @ f # post)) (Instance src)
            = Returned False target'
          \<and> (\<forall>c\<in>set pre. get_dimension target' [c] = get_dimension src [c])
          \<and> (\<forall>n. n \<notin> set (split_chars pre) \<longrightarrow>
                get_dimension target' n = get_dimension target n)
          \<and> get_dimension target' [f] = get_dimension target [f]"
    using t'(3) by blast
qed

theorem swizzle_write_not_atomic_witness:
  "swizzleMatch Vec3_swizzle_particals (split_chars (''y'' @ CHR ''z'' # ''x''))
   \<and> \<not> is_number (get_dimension (Vec2_constructor [Num 10, Num 20]) ''z'')
   \<and> (\<exists>target'.
        set_handler Vec3_swizzle_particals (Vec3_constructor [Num 1, Num 2, Num 3])
            (Str ''yzx'') (Instance (Vec2_constructor [Num 10, Num 20]))
          = Returned False target'
        \<and> get_dimension target' ''y'' = Num 20
        \<and> get_dimension target' ''z'' = Num 3
        \<and> get_dimension target' ''x'' = Num 1)"
proof -
  have "\<exists>target'.
        set_handler Vec3_swizzle_particals (Vec3_constructor [Num 1, Num 2, Num 3])
            (Str (''y'' @ CHR ''z'' # ''x'')) (Instance (Vec2_constructor [Num 10, Num 20]))
          = Returned False target'
        \<and> (\<forall>c\<in>set ''y''. get_dimension target' [c]
              = get_dimension (Vec2_constructor [Num 10, Num 20]) [c])
        \<and> (\<forall>n. n \<notin> set (split_chars ''y'') \<longrightarrow> get_dimension target' n
              = get_dimension (Vec3_constructor [Num 1, Num 2, Num 3]) n)
        \<and> get_dimension target' [CHR ''z'']
              = get_dimension (Vec3_constructor [Num 1, Num 2, Num 3]) [CHR ''z'']"
    using swizzle_write_not_atomic [of "Vec3_constructor [Num 1, Num 2, Num 3]"
      Vec3_swizzle_particals "''y''" "CHR ''z''" "''x''" "Vec2_constructor [Num 10, Num 20]"]
    by (simp add: members_defs eval_defs)
  then obtain t where t:
    "set_handler Vec3_swizzle_particals (Vec3_constructor [Num 1, Num 2, Num 3])
            (Str (''y'' @ CHR ''z'' # ''x'')) (Instance (Vec2_constructor [Num 10, Num 20]))
          = Returned False t"
    "\<forall>c\<in>set ''y''. get_dimension t [c]
        = get_dimension (Vec2_constructor [Num 10, Num 20]) [c]"
    "\<forall>n. n \<notin> set (split_chars ''y'') \<longrightarrow> get_dimension t n
        = get_dimension (Vec3_constructor [Num 1, Num 2, Num 3]) n"
    by blast
  from t(2) have "get_dimension t ''y'' = Num 20"
    by (simp add: eval_defs)
  moreover from t(3) have "get_dimension t ''z'' = Num 3" "get_dimension t ''x'' = Num 1"
    by (simp_all add: eval_defs)
  moreover have "swizzleMatch Vec3_swizzle_particals (split_chars (''y'' @ CHR ''z'' # ''x''))"
    "\<not> is_number (get_dimension (Vec2_constructor [Num 10, Num 20]) ''z'')"
    by (simp_all add: eval_defs)
  ultimately show ?thesis using t(1) by auto
qed

section \<open>The invariant of the data model\<close>

lemma inv_set_dimension: "data_model_invariant v \<Longrightarrow> data_model_invariant (set_dimension v name x)"
proof (cases "name \<in> set (swizzles v)")
  case True
  assume "data_model_invariant v"
  with find_swizzle_index_known [OF True] show ?thesis
    by (simp add: data_model_invariant_def set_dimension_def arr_set_def arr_length_def)
next
  case False
  assume "data_model_invariant v"
  with find_swizzle_index_unknown [OF False] show ?thesis
    by (simp add: data_model_invariant_def set_dimension_def arr_set_def arr_length_def)
qed

lemma inv_set_loop: "data_model_invariant t \<Longrightarrow> set_loop t src cs = (ok, t') \<Longrightarrow> data_model_invariant t'"
proof (induction cs arbitrary: t)
  case Nil
  then show ?case by simp
next
  case (Cons c cs)
  show ?case
  proof (cases "is_number (get_dimension src c)")
    case True
    with Cons.prems(2) have "set_loop (set_dimension t c (get_dimension src c)) src cs = (ok, t')"
      by (simp add: Let_def)
    with Cons.IH [OF inv_set_dimension [OF Cons.prems(1)]] show ?thesis by blast
  next
    case False
    with Cons.prems show ?thesis by (simp add: Let_def)
  qed
qed

lemma inv_set_handler:
  "data_model_invariant v \<Longrightarrow> set_handler sw v p val = Returned ok v' \<Longrightarrow> data_model_invariant v'"
  by (auto simp: set_handler_def Let_def inv_set_loop
      split: if_splits prop_key.splits js_any.splits prod.splits)

lemma inv_VecN:
  "data_model_invariant (Vec2_constructor [a, b])" "data_model_invariant (Vec3_constructor [a, b, c])"
  "data_model_invariant (Vec4_constructor [a, b, c, d])"
  by (simp_all add: data_model_invariant_def Vec2_constructor_def Vec3_constructor_def Vec4_constructor_def
      Vec2_swizzle_particals_def Vec3_swizzle_particals_def Vec4_swizzle_particals_def
      arr_length_def dense_def)

lemma inv_read:
  assumes "length sw \<le> 4" and "p \<noteq> Str []" and "get_handler sw v p = Proxied w names"
  shows "data_model_invariant w \<and> swizzles w = names \<and> length names \<le> 4"
proof (cases p)
  case (Sym s)
  with assms(3) show ?thesis by (simp add: get_handler_def)
next
  case (Str s)
  show ?thesis
  proof (cases "Reflect_has v p \<or> \<not> swizzleMatch sw (split_chars s)")
    case True
    with assms(3) Str show ?thesis by (auto simp: get_handler_def Let_def split: if_splits)
  next
    case False
    then have l: "length s \<le> 4" "s \<noteq> []"
      using assms(1,2) Str by (auto simp: swizzleMatch_iff)
    then have "length s \<noteq> 0" by simp
    with l have "length s = 1 \<or> length s = 2 \<or> length s = 3 \<or> length s = 4"
      by arith
    then show ?thesis
      using assms(3) Str False
      by (auto simp: get_handler_def Let_def split_chars_def data_model_invariant_def arr_length_def dense_def
          Vec2_constructor_def Vec3_constructor_def Vec4_constructor_def
          Vec2_swizzle_particals_def Vec3_swizzle_particals_def Vec4_swizzle_particals_def)
  qed
qed

lemma swizzles_set_loop: "set_loop t src cs = (ok, t') \<Longrightarrow> swizzles t' = swizzles t"
proof (induction cs arbitrary: t)
  case Nil
  then show ?case by simp
next
  case (Cons c cs)
  show ?case
  proof (cases "is_number (get_dimension src c)")
    case True
    with Cons.prems have "set_loop (set_dimension t c (get_dimension src c)) src cs = (ok, t')"
      by (simp add: Let_def)
    from Cons.IH [OF this] show ?thesis by (simp add: set_dimension_def)
  next
    case False
    with Cons.prems show ?thesis by (simp add: Let_def)
  qed
qed

lemma swizzles_set_handler:
  "set_handler sw v p val = Returned ok v' \<Longrightarrow> swizzles v' = swizzles v"
  by (auto simp: set_handler_def Let_def swizzles_set_loop
      split: if_splits prop_key.splits js_any.splits prod.splits)

lemma inv_arr_map:
  "data_model_invariant v \<Longrightarrow>
   data_model_invariant \<lparr>proto = proto v, swizzles = swizzles v, body = arr_map f (body v)\<rparr>"
  by (simp add: data_model_invariant_def arr_map_shape)

lemma couple_extends:
  assumes "this < length s" and "other < length s" and "data_model_invariant (s ! this)"
    and "couple_element_wise s this other f = (r, s')"
  shows "\<exists>new. s' = s @ new \<and> (\<forall>v\<in>set new. data_model_invariant v)"
proof -
  define obj where "obj = \<lparr>proto = proto (s ! this), swizzles = swizzles (s ! this),
      body = arr_map (\<lambda>v i. f v (arr_get (body (s ! other)) (int i))) (body (s ! this))\<rparr>"
  have "couple_element_wise s this other f = (length s, s @ [obj])"
    unfolding obj_def by (rule couple_element_wise_eq [OF assms(1,2)])
  with assms(4) have "s' = s @ [obj]" by simp
  moreover have "data_model_invariant obj"
    unfolding obj_def by (rule inv_arr_map [OF assms(3)])
  ultimately show ?thesis by (intro exI [of _ "[obj]"]) simp
qed

lemma scalar_extends:
  assumes "this < length s" and "data_model_invariant (s ! this)"
    and "scalar fp s this k = (r, s')"
  shows "\<exists>new. s' = s @ new \<and> (\<forall>v\<in>set new. data_model_invariant v)"
proof -
  define c where "c = \<lparr>proto = proto (s ! this), swizzles = swizzles (s ! this),
      body = arr_map (\<lambda>v i. k) (body (s ! this))\<rparr>"
  have ic: "data_model_invariant c"
    unfolding c_def by (rule inv_arr_map [OF assms(2)])
  have m: "multiply fp (s @ [c]) this (length s) = (r, s')"
    using assms(3) by (simp add: scalar_def clone_eq c_def)
  have "this < length (s @ [c])" "length s < length (s @ [c])"
    "data_model_invariant ((s @ [c]) ! this)"
    using assms(1,2) by (simp_all add: nth_append)
  from couple_extends [OF this] m obtain new where
    "s' = (s @ [c]) @ new" "\<forall>v\<in>set new. data_model_invariant v"
    unfolding multiply_def by blast
  with ic show ?thesis by (intro exI [of _ "c # new"]) simp
qed

lemma length_cross_step: "length (cross_step fp a b r i) = length r"
  by (simp add: cross_step_def Let_def)

lemma cross_allocates:
  assumes "arr_length (body (s ! this)) = 3"
  shows "cross fp s this other =
     (Some (length s), s @ [\<lparr>proto = proto (s ! this), swizzles = swizzles (s ! this),
        body = dense (foldl
          (cross_step fp (spread (body (s ! this)) @ spread (body (s ! this)))
             (spread (body (s ! other)) @ spread (body (s ! other))))
          [Num 0, Num 0, Num 0] [0, 1, 2])\<rparr>])"
  unfolding cross_def Let_def clone_eq
  using assms by (simp del: foldl.simps)

lemma cross_extends:
  assumes "this < length s" and "data_model_invariant (s ! this)"
    and "cross fp s this other = (x, s')"
  shows "\<exists>new. s' = s @ new \<and> (\<forall>v\<in>set new. data_model_invariant v)"
proof (cases "arr_length (body (s ! this)) = 3")
  case False
  then have "cross fp s this other = (None, s)" by (simp add: cross_def)
  with assms(3) have "s' = s" by simp
  then show ?thesis by (intro exI [of _ "[]"]) simp
next
  case True
  define res where "res = foldl
      (cross_step fp (spread (body (s ! this)) @ spread (body (s ! this)))
         (spread (body (s ! other)) @ spread (body (s ! other))))
      [Num 0, Num 0, Num 0] [0, 1, 2]"
  define obj where "obj = \<lparr>proto = proto (s ! this), swizzles = swizzles (s ! this),
      body = dense res\<rparr>"
  have l: "length res = 3"
    unfolding res_def by (simp add: length_cross_step)
  have "cross fp s this other = (Some (length s), s @ [obj])"
    unfolding obj_def res_def by (rule cross_allocates [OF True])
  with assms(3) have "s' = s @ [obj]" by simp
  moreover have "data_model_invariant obj"
    using assms(2) True l
    by (simp add: obj_def data_model_invariant_def arr_length_def dense_def)
  ultimately show ?thesis by (intro exI [of _ "[obj]"]) simp
qed

lemma dot_extends:
  assumes "this < length s" and "other < length s" and "data_model_invariant (s ! this)"
    and "dot fp s this other = (x, s')"
  shows "\<exists>new. s' = s @ new \<and> (\<forall>v\<in>set new. data_model_invariant v)"
proof -
  obtain m s1 where m: "couple_element_wise s this other (\<lambda>a b. fp_mul fp a b) = (m, s1)"
    by (cases "couple_element_wise s this other (\<lambda>a b. fp_mul fp a b)")
  with assms(4) have "s' = s1" by (simp add: dot_def multiply_def)
  with couple_extends [OF assms(1,2,3) m] show ?thesis by simp
qed

lemma projection_extends:
  assumes "this < length s" and "other < length s" and "data_model_invariant (s ! this)"
    and "data_model_invariant (s ! other)"
    and "projection fp s this other = (x, s')"
  shows "\<exists>new. s' = s @ new \<and> (\<forall>v\<in>set new. data_model_invariant v)"
proof -
  obtain d s1 where d: "dot fp s this other = (d, s1)" by (cases "dot fp s this other")
  from dot_extends [OF assms(1,2,3) d] obtain n1 where
    n1: "s1 = s @ n1" "\<forall>v\<in>set n1. data_model_invariant v" by blast
  show ?thesis
  proof (cases d)
    case (Inl e)
    with d assms(5) have "s' = s1" by (simp add: projection_def)
    with n1 show ?thesis by (intro exI [of _ n1]) simp
  next
    case (Inr dp)
    define f where "f = fp_div fp dp (Math_pow fp (norm_vec fp s1 other) (Num 2))"
    obtain r s2 where sc: "scalar fp s1 other f = (r, s2)"
      by (cases "scalar fp s1 other f")
    have s2: "s' = s2"
      using d Inr assms(5) sc by (simp add: projection_def Let_def f_def)
    have "other < length s1" "data_model_invariant (s1 ! other)"
      using assms(2,4) n1(1) by (simp_all add: nth_append)
    from scalar_extends [OF this sc] obtain n2 where
      "s2 = s1 @ n2" "\<forall>v\<in>set n2. data_model_invariant v" by blast
    with n1 s2 show ?thesis by (intro exI [of _ "n1 @ n2"]) auto
  qed
qed

lemma store_invariant_nth:
  "store_invariant s P \<Longrightarrow> this < length s \<Longrightarrow> data_model_invariant (s ! this)"
  by (simp add: store_invariant_def)

lemma store_invariant_extend:
  assumes "store_invariant s P" and "\<exists>new. s' = s @ new \<and> (\<forall>v\<in>set new. data_model_invariant v)"
  shows "store_invariant s' P"
proof -
  from assms(2) obtain new where n: "s' = s @ new" "\<forall>v\<in>set new. data_model_invariant v"
    by blast
  show ?thesis
    using assms(1) n by (auto simp: store_invariant_def nth_append)
qed

lemma store_invariant_alloc:
  assumes "store_invariant s P" and "data_model_invariant v" and "alloc s v = (r, s')"
  shows "store_invariant s' P"
proof -
  from assms(3) have "s' = s @ [v]" by (auto simp: alloc_def)
  with assms(2) have "\<exists>new. s' = s @ new \<and> (\<forall>v\<in>set new. data_model_invariant v)"
    by (intro exI [of _ "[v]"]) simp
  with assms(1) show ?thesis by (rule store_invariant_extend)
qed

lemma store_invariant_proxy:
  assumes "store_invariant s P" and "data_model_invariant v" and "alloc s v = (r, s')"
    and "swizzles v = sw" and "length sw \<le> 4"
  shows "store_invariant s' (insert (r, sw) P)"
proof -
  from assms(3) have e: "s' = s @ [v]" "r = length s" by (auto simp: alloc_def)
  have "store_invariant s' P" by (rule store_invariant_alloc [OF assms(1,2,3)])
  then show ?thesis
    using e assms(4,5) by (simp add: store_invariant_def)
qed

lemma store_invariant_update:
  assumes "store_invariant s P" and "t < length s" and "data_model_invariant v'"
    and "swizzles v' = swizzles (s ! t)"
  shows "store_invariant (s[t := v']) P"
proof -
  have "\<forall>v\<in>set (s[t := v']). data_model_invariant v"
    using assms(1,3) set_update_subset_insert [of s t v']
    by (auto simp: store_invariant_def)
  moreover have "\<forall>(u, sw)\<in>P. u < length (s[t := v']) \<and> swizzles (s[t := v'] ! u) = sw
      \<and> length sw \<le> 4"
    using assms(1,2,4) by (auto simp: store_invariant_def nth_list_update)
  ultimately show ?thesis by (simp add: store_invariant_def)
qed

lemma read_in_proxy:
  "read_in s t sw p = (Read_proxy r names, s') \<Longrightarrow>
   \<exists>w. get_handler sw (s ! t) p = Proxied w names \<and> alloc s w = (r, s')"
  by (cases "get_handler sw (s ! t) p") (auto simp: read_in_def split: prod.splits)

lemma write_in_some:
  "write_in s t sw p src = Some (ok, s') \<Longrightarrow>
   \<exists>v'. set_handler sw (s ! t) p (Instance (s ! src)) = Returned ok v' \<and> s' = s[t := v']"
  by (cases "set_handler sw (s ! t) p (Instance (s ! src))") (auto simp: write_in_def)

lemma api_store_invariant: "api s P \<Longrightarrow> store_invariant s P"
proof (induction rule: api.induct)
  case by_start
  show ?case by (simp add: store_invariant_def)
next
  case (by_Vec2 s P a b r s')
  show ?case
    by (rule store_invariant_alloc [OF by_Vec2.IH inv_VecN(1) by_Vec2.hyps(2)])
next
  case (by_Vec3 s P a b c r s')
  show ?case
    by (rule store_invariant_alloc [OF by_Vec3.IH inv_VecN(2) by_Vec3.hyps(2)])
next
  case (by_Vec4 s P a b c d r s')
  show ?case
    by (rule store_invariant_alloc [OF by_Vec4.IH inv_VecN(3) by_Vec4.hyps(2)])
next
  case (by_VecBase s P sw cs r s')
  then have "data_model_invariant (VecBase_constructor sw cs)"
    by (simp add: data_model_invariant_def VecBase_constructor_def arr_length_def dense_def)
  then show ?case
    by (rule store_invariant_alloc [OF by_VecBase.IH _ by_VecBase.hyps(4)])
next
  case (by_Vec2_new s P a b r s')
  have "swizzles (Vec2_constructor [a, b]) = Vec2_swizzle_particals"
    "length Vec2_swizzle_particals \<le> 4"
    by (simp_all add: Vec2_constructor_def Vec2_swizzle_particals_def)
  from store_invariant_proxy [OF by_Vec2_new.IH inv_VecN(1) by_Vec2_new.hyps(2) this]
  show ?case .
next
  case (by_Vec3_new s P a b c r s')
  have "swizzles (Vec3_constructor [a, b, c]) = Vec3_swizzle_particals"
    "length Vec3_swizzle_particals \<le> 4"
    by (simp_all add: Vec3_constructor_def Vec3_swizzle_particals_def)
  from store_invariant_proxy [OF by_Vec3_new.IH inv_VecN(2) by_Vec3_new.hyps(2) this]
  show ?case .
next
  case (by_Vec4_new s P a b c d r s')
  have "swizzles (Vec4_constructor [a, b, c, d]) = Vec4_swizzle_particals"
    "length Vec4_swizzle_particals \<le> 4"
    by (simp_all add: Vec4_constructor_def Vec4_swizzle_particals_def)
  from store_invariant_proxy [OF by_Vec4_new.IH inv_VecN(3) by_Vec4_new.hyps(2) this]
  show ?case .
next
  case (by_clone s P this r s')
  have i: "data_model_invariant (s ! this)"
    by (rule store_invariant_nth [OF by_clone.IH by_clone.hyps(2)])
  then have "data_model_invariant \<lparr>proto = proto (s ! this), swizzles = swizzles (s ! this),
      body = body (s ! this)\<rparr>"
    by (simp add: data_model_invariant_def)
  moreover have "alloc s \<lparr>proto = proto (s ! this), swizzles = swizzles (s ! this),
      body = body (s ! this)\<rparr> = (r, s')"
    using by_clone.hyps(3) by (simp add: clone_def Let_def)
  ultimately show ?case by (rule store_invariant_alloc [OF by_clone.IH])
next
  case (by_set_dimension s P this name x)
  have "data_model_invariant (set_dimension (s ! this) name x)"
    by (rule inv_set_dimension [OF store_invariant_nth [OF by_set_dimension.IH
          by_set_dimension.hyps(2)]])
  moreover have "swizzles (set_dimension (s ! this) name x) = swizzles (s ! this)"
    by (simp add: set_dimension_def)
  ultimately show ?case
    unfolding set_dimension_in_def
    by (rule store_invariant_update [OF by_set_dimension.IH by_set_dimension.hyps(2)])
next
  case (by_add s P this other fp r s')
  from couple_extends [OF by_add.hyps(2,3)
      store_invariant_nth [OF by_add.IH by_add.hyps(2)]
      by_add.hyps(4) [unfolded add_def]]
  show ?case by (rule store_invariant_extend [OF by_add.IH])
next
  case (by_subtract s P this other fp r s')
  from couple_extends [OF by_subtract.hyps(2,3)
      store_invariant_nth [OF by_subtract.IH by_subtract.hyps(2)]
      by_subtract.hyps(4) [unfolded subtract_def]]
  show ?case by (rule store_invariant_extend [OF by_subtract.IH])
next
  case (by_multiply s P this other fp r s')
  from couple_extends [OF by_multiply.hyps(2,3)
      store_invariant_nth [OF by_multiply.IH by_multiply.hyps(2)]
      by_multiply.hyps(4) [unfolded multiply_def]]
  show ?case by (rule store_invariant_extend [OF by_multiply.IH])
next
  case (by_divide s P this other fp r s')
  from couple_extends [OF by_divide.hyps(2,3)
      store_invariant_nth [OF by_divide.IH by_divide.hyps(2)]
      by_divide.hyps(4) [unfolded divide_vec_def]]
  show ?case by (rule store_invariant_extend [OF by_divide.IH])
next
  case (by_scalar s P this fp k r s')
  from scalar_extends [OF by_scalar.hyps(2)
      store_invariant_nth [OF by_scalar.IH by_scalar.hyps(2)] by_scalar.hyps(3)]
  show ?case by (rule store_invariant_extend [OF by_scalar.IH])
next
  case (by_lerp s P this other fp t r s')
  from couple_extends [OF by_lerp.hyps(2,3)
      store_invariant_nth [OF by_lerp.IH by_lerp.hyps(2)]
      by_lerp.hyps(4) [unfolded lerp_def]]
  show ?case by (rule store_invariant_extend [OF by_lerp.IH])
next
  case (by_normalize s P this fp r s')
  from scalar_extends [OF by_normalize.hyps(2)
      store_invariant_nth [OF by_normalize.IH by_normalize.hyps(2)]
      by_normalize.hyps(3) [unfolded normalize_vec_def]]
  show ?case by (rule store_invariant_extend [OF by_normalize.IH])
next
  case (by_dot s P this other fp x s')
  from dot_extends [OF by_dot.hyps(2,3)
      store_invariant_nth [OF by_dot.IH by_dot.hyps(2)] by_dot.hyps(4)]
  show ?case by (rule store_invariant_extend [OF by_dot.IH])
next
  case (by_projection s P this other fp x s')
  from projection_extends [OF by_projection.hyps(2,3)
      store_invariant_nth [OF by_projection.IH by_projection.hyps(2)]
      store_invariant_nth [OF by_projection.IH by_projection.hyps(3)]
      by_projection.hyps(4)]
  show ?case by (rule store_invariant_extend [OF by_projection.IH])
next
  case (by_cross s P this other fp x s')
  from cross_extends [OF by_cross.hyps(2)
      store_invariant_nth [OF by_cross.IH by_cross.hyps(2)] by_cross.hyps(4)]
  show ?case by (rule store_invariant_extend [OF by_cross.IH])
next
  case (by_read s P t sw p r names s')
  from by_read.IH by_read.hyps(2) have f: "t < length s" "swizzles (s ! t) = sw" "length sw \<le> 4"
    by (auto simp: store_invariant_def)
  from read_in_proxy [OF by_read.hyps(4)] obtain w where
    w: "get_handler sw (s ! t) p = Proxied w names" "alloc s w = (r, s')" by blast
  from inv_read [OF f(3) by_read.hyps(3) w(1)]
  have "data_model_invariant w" "swizzles w = names" "length names \<le> 4" by simp_all
  from store_invariant_proxy [OF by_read.IH this(1) w(2) this(2,3)] show ?case .
next
  case (by_write s P t sw src p ok s')
  from by_write.IH by_write.hyps(2) have f: "t < length s"
    by (auto simp: store_invariant_def)
  from write_in_some [OF by_write.hyps(4)] obtain v' where
    v: "set_handler sw (s ! t) p (Instance (s ! src)) = Returned ok v'" "s' = s[t := v']"
    by blast
  have "data_model_invariant v'"
    by (rule inv_set_handler [OF store_invariant_nth [OF by_write.IH f] v(1)])
  moreover have "swizzles v' = swizzles (s ! t)"
    by (rule swizzles_set_handler [OF v(1)])
  ultimately show ?case
    unfolding v(2) by (rule store_invariant_update [OF by_write.IH f])
qed

text \<open>
  Claim C7 as stated fails: the generic constructor is exported and checks nothing. The
  vector it returns for the names \<open>x\<close>, \<open>x\<close> and two values, which its types allow,
  has a name twice.
\<close>

theorem invariant_counterexample:
  "swizzles (VecBase_constructor [''x'', ''x''] [Num 1, Num 2]) = [''x'', ''x'']
   \<and> \<not> distinct (swizzles (VecBase_constructor [''x'', ''x''] [Num 1, Num 2]))
   \<and> \<not> data_model_invariant (VecBase_constructor [''x'', ''x''] [Num 1, Num 2])"
  by (simp add: data_model_invariant_def VecBase_constructor_def)

text \<open>
  Claim C7, amended. In every store that the public interface produces from full
  bodies, every vector has as many names as components and pairwise distinct names.
  Such a store is built by the \<open>Vec2\<close>, \<open>Vec3\<close> and \<open>Vec4\<close> constructors and their
  static \<open>new\<close> called with exactly 2, 3 and 4 values, by the generic constructor
  called with pairwise distinct names and as many values, by \<open>clone\<close>, by the
  arithmetic operations (\<open>add\<close>, \<open>subtract\<close>, \<open>multiply\<close>, \<open>divide\<close>, \<open>scalar\<close>,
  \<open>lerp\<close>, \<open>normalize\<close>, \<open>dot\<close>, \<open>projection\<close>, \<open>cross\<close>) under any arithmetic,
  by \<open>set_dimension\<close>, by an assignment through a proxy, and by reading a non-empty
  key through a proxy. What a body of a single value or a read of the empty key gives
  is not part of this statement.
\<close>

theorem api_vectors_satisfy_invariant:
  "api s P \<longrightarrow>
     (\<forall>v\<in>set s. length (swizzles v) = arr_length (body v) \<and> distinct (swizzles v))"
  using api_store_invariant [of s P]
  by (simp add: store_invariant_def data_model_invariant_def)

theorem api_vectors_satisfy_invariant_witness:
  "api [Vec3_constructor [Num 1, Num 2, Num 3], Vec2_constructor [Num 3, Num 1]]
       {(1, Vec2_swizzle_particals), (0, Vec3_swizzle_particals)}
   \<and> length (swizzles (Vec2_constructor [Num 3, Num 1])) = 2
   \<and> arr_length (body (Vec2_constructor [Num 3, Num 1])) = 2
   \<and> distinct (swizzles (Vec2_constructor [Num 3, Num 1]))"
proof -
  let ?v0 = "Vec3_constructor [Num 1, Num 2, Num 3]"
  let ?v1 = "Vec2_constructor [Num 3, Num 1]"
  have "alloc [] ?v0 = (0, [?v0])" by (simp add: alloc_def)
  from api.by_Vec3_new [OF api.by_start this]
  have a1: "api [?v0] {(0, Vec3_swizzle_particals)}" .
  have "get_handler Vec3_swizzle_particals ?v0 (Str ''zx'') = Proxied ?v1 Vec2_swizzle_particals"
    by (simp add: get_handler_def members_defs eval_defs)
  then have r: "read_in [?v0] 0 Vec3_swizzle_particals (Str ''zx'')
      = (Read_proxy 1 Vec2_swizzle_particals, [?v0, ?v1])"
    by (simp add: read_in_def alloc_def)
  have a2: "api [?v0, ?v1] {(1, Vec2_swizzle_particals), (0, Vec3_swizzle_particals)}"
    by (rule api.by_read [OF a1 _ _ r]) simp_all
  have "length (swizzles ?v1) = arr_length (body ?v1) \<and> distinct (swizzles ?v1)"
    using api_vectors_satisfy_invariant
      [of "[?v0, ?v1]" "{(1, Vec2_swizzle_particals), (0, Vec3_swizzle_particals)}"] a2
    by simp
  moreover have "length (swizzles ?v1) = 2"
    by (simp add: Vec2_constructor_def Vec2_swizzle_particals_def)
  ultimately show ?thesis using a2 by simp
qed

end
